theory Spec2Isabelle
  imports Complex_Main "HOL-Library.Monad_Syntax"
begin

section \<open>Shader values\<close>

text \<open>
  The kernels of the galaxy simulation are written in the Three.js Shading Language
  and run on 32-bit floats. Here a float that holds a finite value is idealised as a
  \<^typ>\<open>real\<close>; rounding is not modelled. What the shading language leaves undefined
  (a division by zero, the direction of a zero-length vector) is not a real: a
  computation that reaches it returns \<open>None\<close>.

  A node expression bound with \<open>const\<close> is not evaluated where it is bound but where
  the generated shader first uses it; an expression used more than once is evaluated
  once, at its first use. This matters where a variable is assigned between the binding
  and the use, which happens in one place: the inline rotation of the position in
  galaxy.js.
\<close>

datatype vec3 = Vec3 (vec_x: real) (vec_y: real) (vec_z: real)

definition add_vec3 :: "vec3 \<Rightarrow> vec3 \<Rightarrow> vec3" where
  "add_vec3 a b = Vec3 (vec_x a + vec_x b) (vec_y a + vec_y b) (vec_z a + vec_z b)"

definition sub_vec3 :: "vec3 \<Rightarrow> vec3 \<Rightarrow> vec3" where
  "sub_vec3 a b = Vec3 (vec_x a - vec_x b) (vec_y a - vec_y b) (vec_z a - vec_z b)"

definition mul_vec3 :: "vec3 \<Rightarrow> real \<Rightarrow> vec3" where
  "mul_vec3 a k = Vec3 (vec_x a * k) (vec_y a * k) (vec_z a * k)"

definition negate_vec3 :: "vec3 \<Rightarrow> vec3" where
  "negate_vec3 a = Vec3 (- vec_x a) (- vec_y a) (- vec_z a)"

definition length_vec3 :: "vec3 \<Rightarrow> real" where
  "length_vec3 a = sqrt (vec_x a * vec_x a + vec_y a * vec_y a + vec_z a * vec_z a)"

text \<open>Scalar division: undefined when the divisor is zero.\<close>

definition div_f :: "real \<Rightarrow> real \<Rightarrow> real option" where
  "div_f a b = (if b = 0 then None else Some (a / b))"

text \<open>
  \<open>normalize(v)\<close> is \<open>v / length(v)\<close>: the zero vector has no direction, and the
  result is undefined there.
\<close>

definition normalize_vec3 :: "vec3 \<Rightarrow> vec3 option" where
  "normalize_vec3 v =
     (if length_vec3 v = 0 then None else Some (mul_vec3 v (1 / length_vec3 v)))"

text \<open>\<open>fract(e) = e - floor(e)\<close>, and \<open>floor\<close> returns a float.\<close>

definition floor_f :: "real \<Rightarrow> real" where
  "floor_f e = of_int \<lfloor>e\<rfloor>"

definition fract :: "real \<Rightarrow> real" where
  "fract e = e - floor_f e"

section \<open>helpers.js: random number generation\<close>

definition hash :: "real \<Rightarrow> real" where
  "hash seed =
     (let p = fract (seed * 0.1031);
          h = p + 19.19;
          x = fract (h * (h + 47.43) * p)
      in x)"

section \<open>helpers.js: rotation and physics\<close>

definition rotateXZ :: "vec3 \<Rightarrow> real \<Rightarrow> vec3" where
  "rotateXZ position angle =
     (let cosTheta = cos angle;
          sinTheta = sin angle;
          newX = vec_x position * cosTheta - vec_z position * sinTheta;
          newZ = vec_x position * sinTheta + vec_z position * cosTheta
      in Vec3 newX (vec_y position) newZ)"

text \<open>
  The divisor \<open>distFromCenter * 0.1 + 1.0\<close> of the rotation factor is at least 1
  (lemma \<open>rotation_divisor_pos\<close> below), so this division is always defined.
\<close>

definition applyDifferentialRotation :: "vec3 \<Rightarrow> real \<Rightarrow> real \<Rightarrow> vec3" where
  "applyDifferentialRotation position rotationSpeed deltaTime =
     (let distFromCenter = length_vec3 (Vec3 (vec_x position) 0 (vec_z position));
          rotationFactor = 1.0 / (distFromCenter * 0.1 + 1.0);
          angularSpeed = - (rotationSpeed * rotationFactor * deltaTime)
      in rotateXZ position angularSpeed)"

definition applyMouseForce ::
  "vec3 \<Rightarrow> vec3 \<Rightarrow> real \<Rightarrow> real \<Rightarrow> real \<Rightarrow> real \<Rightarrow> vec3 option" where
  "applyMouseForce position mouse mouseActive mouseForce mouseRadius deltaTime =
     (let toMouse = sub_vec3 mouse position;
          distToMouse = length_vec3 toMouse
      in do {
        ratio \<leftarrow> div_f distToMouse mouseRadius;
        let mouseInfluence = mouseActive * max (1.0 - ratio) 0.0;
        mouseDir \<leftarrow> normalize_vec3 toMouse;
        Some (negate_vec3
               (mul_vec3 (mul_vec3 (mul_vec3 mouseDir mouseForce) mouseInfluence) deltaTime))
      })"

definition applySpringForce :: "vec3 \<Rightarrow> vec3 \<Rightarrow> real \<Rightarrow> real \<Rightarrow> vec3" where
  "applySpringForce currentPos targetPos strength deltaTime =
     (let toTarget = sub_vec3 targetPos currentPos
      in mul_vec3 (mul_vec3 toTarget strength) deltaTime)"

section \<open>galaxy.js: uniforms\<close>

record compute_uniforms =
  computeTime :: real
  computeDeltaTime :: real
  computeMouse :: vec3
  computeMouseActive :: real
  computeMouseForce :: real
  computeMouseRadius :: real
  computeRotationSpeed :: real

record galaxy_uniforms =
  galaxyRadiusUniform :: real
  galaxyThicknessUniform :: real
  spiralTightnessUniform :: real
  armCountUniform :: real
  armWidthUniform :: real
  randomnessUniform :: real

text \<open>A colour is the RGB triple that its hexadecimal string denotes.\<close>

type_synonym color = vec3

record visual_uniforms =
  particleSizeUniform :: real
  cloudSizeUniform :: real
  cloudOpacityUniform :: real
  starBrightnessUniform :: real
  denseColorUniform :: color
  sparseColorUniform :: color
  cloudTintColorUniform :: color

section \<open>galaxy.js: placement kernels\<close>

text \<open>
  What \<open>computeInit\<close> writes for one star: the position goes to both the spawn and
  the original position buffer.
\<close>

record star_init =
  star_position :: "vec3 option"
  star_velocity :: "vec3 option"
  star_density :: "real option"

definition computeInit :: "galaxy_uniforms \<Rightarrow> nat \<Rightarrow> star_init" where
  "computeInit g idx =
     (let seed = real idx;
          radius = hash (seed + 1) powr 0.5 * galaxyRadiusUniform g;
          normalizedRadius = div_f radius (galaxyRadiusUniform g);
          armIndex = floor_f (hash (seed + 2) * armCountUniform g);
          armAngle = div_f (armIndex * 6.28318) (armCountUniform g);
          spiralAngle = map_option (\<lambda>nr. nr * spiralTightnessUniform g * 6.28318) normalizedRadius;
          angleOffset = (hash (seed + 3) - 0.5) * randomnessUniform g;
          radiusOffset = (hash (seed + 4) - 0.5) * armWidthUniform g;
          angle = do { aa \<leftarrow> armAngle; sa \<leftarrow> spiralAngle; Some (aa + sa + angleOffset) };
          offsetRadius = radius + radiusOffset;
          x = map_option (\<lambda>a. cos a * offsetRadius) angle;
          z = map_option (\<lambda>a. sin a * offsetRadius) angle;
          thicknessFactor = map_option (\<lambda>nr. 1.0 - nr + 0.2) normalizedRadius;
          y = map_option (\<lambda>tf. (hash (seed + 5) - 0.5) * galaxyThicknessUniform g * tf)
                thicknessFactor;
          position = do { x' \<leftarrow> x; y' \<leftarrow> y; z' \<leftarrow> z; Some (Vec3 x' y' z') };
          orbitalSpeed = map_option (\<lambda>q. q * 5.0) (div_f 1.0 (offsetRadius + 0.5));
          vx = do { a \<leftarrow> angle; os \<leftarrow> orbitalSpeed; Some (- (sin a * os)) };
          vz = do { a \<leftarrow> angle; os \<leftarrow> orbitalSpeed; Some (cos a * os) };
          velocity = do { vx' \<leftarrow> vx; vz' \<leftarrow> vz; Some (Vec3 vx' 0 vz') };
          radialSparsity = div_f \<bar>radiusOffset\<bar> (armWidthUniform g * 0.5 + 0.01);
          angularSparsity = div_f \<bar>angleOffset\<bar> (randomnessUniform g * 0.5 + 0.01);
          sparsityFactor =
            do { rs \<leftarrow> radialSparsity; as \<leftarrow> angularSparsity; Some (min ((rs + as) * 0.5) 1.0) }
      in \<lparr> star_position = position, star_velocity = velocity, star_density = sparsityFactor \<rparr>)"

text \<open>What \<open>cloudInit\<close> writes for one cloud particle.\<close>

record cloud_init =
  cloud_position :: "vec3 option"
  cloud_color :: "vec3 option"
  cloud_size :: "real option"
  cloud_rotation :: real

definition cloudInit :: "galaxy_uniforms \<Rightarrow> visual_uniforms \<Rightarrow> nat \<Rightarrow> cloud_init" where
  "cloudInit g v idx =
     (let seed = real idx + 10000;
          radius = hash (seed + 1) powr 0.7 * galaxyRadiusUniform g;
          normalizedRadius = div_f radius (galaxyRadiusUniform g);
          armIndex = floor_f (hash (seed + 2) * armCountUniform g);
          armAngle = div_f (armIndex * 6.28318) (armCountUniform g);
          spiralAngle = map_option (\<lambda>nr. nr * spiralTightnessUniform g * 6.28318) normalizedRadius;
          angleOffset = (hash (seed + 3) - 0.5) * randomnessUniform g;
          radiusOffset = (hash (seed + 4) - 0.5) * armWidthUniform g;
          angle = do { aa \<leftarrow> armAngle; sa \<leftarrow> spiralAngle; Some (aa + sa + angleOffset) };
          offsetRadius = radius + radiusOffset;
          x = map_option (\<lambda>a. cos a * offsetRadius) angle;
          z = map_option (\<lambda>a. sin a * offsetRadius) angle;
          thicknessFactor = map_option (\<lambda>nr. 1.0 - nr + 0.15) normalizedRadius;
          y = map_option (\<lambda>tf. (hash (seed + 5) - 0.5) * galaxyThicknessUniform g * tf)
                thicknessFactor;
          position = do { x' \<leftarrow> x; y' \<leftarrow> y; z' \<leftarrow> z; Some (Vec3 x' y' z') };
          tintColor = cloudTintColorUniform v;
          cloudColor = map_option (\<lambda>nr. mul_vec3 tintColor (1.0 - nr * 0.3)) normalizedRadius;
          densityFactor = map_option (\<lambda>nr. 1.0 - nr * 0.5) normalizedRadius;
          size = map_option (\<lambda>df. (hash (seed + 6) * 0.5 + 0.7) * df) densityFactor;
          rotation = hash (seed + 7) * 6.28318
      in \<lparr> cloud_position = position, cloud_color = cloudColor, cloud_size = size,
           cloud_rotation = rotation \<rparr>)"

section \<open>galaxy.js: update kernels\<close>

text \<open>
  What an update kernel writes for one particle: the new element of the position
  buffer and the new element of the original position buffer. An element that is
  undefined stays undefined, and makes undefined what is computed from it.
\<close>

record update_out =
  new_position :: "vec3 option"
  new_original :: "vec3 option"

text \<open>The kernels built on helpers.js; the spring strength is 2.0 for stars and 1.0 for clouds.\<close>

definition update_kernel ::
  "real \<Rightarrow> compute_uniforms \<Rightarrow> vec3 option \<Rightarrow> vec3 option \<Rightarrow> update_out" where
  "update_kernel strength c position originalPos =
     (let rotatedPos =
            map_option (\<lambda>p. applyDifferentialRotation p (computeRotationSpeed c) (computeDeltaTime c))
              position;
          rotatedOriginal =
            map_option (\<lambda>p. applyDifferentialRotation p (computeRotationSpeed c) (computeDeltaTime c))
              originalPos;
          final = do {
            p1 \<leftarrow> rotatedPos;
            mouseForce \<leftarrow> applyMouseForce p1 (computeMouse c) (computeMouseActive c)
                            (computeMouseForce c) (computeMouseRadius c) (computeDeltaTime c);
            let p2 = add_vec3 p1 mouseForce;
            target \<leftarrow> rotatedOriginal;
            let springForce = applySpringForce p2 target strength (computeDeltaTime c);
            Some (add_vec3 p2 springForce)
          }
      in \<lparr> new_position = final, new_original = rotatedOriginal \<rparr>)"

definition computeUpdate :: "compute_uniforms \<Rightarrow> vec3 option \<Rightarrow> vec3 option \<Rightarrow> update_out" where
  "computeUpdate = update_kernel 2.0"

definition cloudUpdate :: "compute_uniforms \<Rightarrow> vec3 option \<Rightarrow> vec3 option \<Rightarrow> update_out" where
  "cloudUpdate = update_kernel 1.0"

section \<open>galaxy.js, the revision with the helpers written inline\<close>

text \<open>
  The source holds two revisions of galaxy.js. One, modelled above, calls helpers.js.
  The other writes the arithmetic inline in each kernel; it is modelled here. Its
  placement kernels compute the same values as the ones above, and so does its
  rotation of the anchor; its rotation of the position does not.
\<close>

definition computeInit_inline :: "galaxy_uniforms \<Rightarrow> nat \<Rightarrow> star_init" where
  "computeInit_inline g idx =
     (let seed = real idx;
          radius = hash (seed + 1) powr 0.5 * galaxyRadiusUniform g;
          armIndex = floor_f (hash (seed + 2) * armCountUniform g);
          armAngle = div_f (armIndex * 6.28318) (armCountUniform g);
          spiralAngle =
            map_option (\<lambda>q. q * spiralTightnessUniform g * 6.28318)
              (div_f radius (galaxyRadiusUniform g));
          angleOffset = (hash (seed + 3) - 0.5) * randomnessUniform g;
          radiusOffset = (hash (seed + 4) - 0.5) * armWidthUniform g;
          angle = do { aa \<leftarrow> armAngle; sa \<leftarrow> spiralAngle; Some (aa + sa + angleOffset) };
          offsetRadius = radius + radiusOffset;
          x = map_option (\<lambda>a. cos a * offsetRadius) angle;
          z = map_option (\<lambda>a. sin a * offsetRadius) angle;
          normalizedRadius = div_f radius (galaxyRadiusUniform g);
          thicknessFactor = map_option (\<lambda>nr. 1.0 - nr + 0.2) normalizedRadius;
          y = map_option (\<lambda>tf. (hash (seed + 5) - 0.5) * galaxyThicknessUniform g * tf)
                thicknessFactor;
          initialPos = do { x' \<leftarrow> x; y' \<leftarrow> y; z' \<leftarrow> z; Some (Vec3 x' y' z') };
          orbitalSpeed = map_option (\<lambda>q. q * 5.0) (div_f 1.0 (offsetRadius + 0.5));
          vx = do { a \<leftarrow> angle; os \<leftarrow> orbitalSpeed; Some (- (sin a * os)) };
          vz = do { a \<leftarrow> angle; os \<leftarrow> orbitalSpeed; Some (cos a * os) };
          velocity = do { vx' \<leftarrow> vx; vz' \<leftarrow> vz; Some (Vec3 vx' 0 vz') };
          radialSparsity = div_f \<bar>radiusOffset\<bar> (armWidthUniform g * 0.5 + 0.01);
          angularSparsity = div_f \<bar>angleOffset\<bar> (randomnessUniform g * 0.5 + 0.01);
          sparsityFactor =
            do { rs \<leftarrow> radialSparsity; as \<leftarrow> angularSparsity; Some (min ((rs + as) * 0.5) 1.0) }
      in \<lparr> star_position = initialPos, star_velocity = velocity, star_density = sparsityFactor \<rparr>)"

definition cloudInit_inline :: "galaxy_uniforms \<Rightarrow> visual_uniforms \<Rightarrow> nat \<Rightarrow> cloud_init" where
  "cloudInit_inline g v idx =
     (let seed = real idx + 10000;
          radius = hash (seed + 1) powr 0.7 * galaxyRadiusUniform g;
          armIndex = floor_f (hash (seed + 2) * armCountUniform g);
          armAngle = div_f (armIndex * 6.28318) (armCountUniform g);
          spiralAngle =
            map_option (\<lambda>q. q * spiralTightnessUniform g * 6.28318)
              (div_f radius (galaxyRadiusUniform g));
          angleOffset = (hash (seed + 3) - 0.5) * randomnessUniform g;
          radiusOffset = (hash (seed + 4) - 0.5) * armWidthUniform g;
          angle = do { aa \<leftarrow> armAngle; sa \<leftarrow> spiralAngle; Some (aa + sa + angleOffset) };
          offsetRadius = radius + radiusOffset;
          x = map_option (\<lambda>a. cos a * offsetRadius) angle;
          z = map_option (\<lambda>a. sin a * offsetRadius) angle;
          normalizedRadius = div_f radius (galaxyRadiusUniform g);
          thicknessFactor = map_option (\<lambda>nr. 1.0 - nr + 0.15) normalizedRadius;
          y = map_option (\<lambda>tf. (hash (seed + 5) - 0.5) * galaxyThicknessUniform g * tf)
                thicknessFactor;
          initialPos = do { x' \<leftarrow> x; y' \<leftarrow> y; z' \<leftarrow> z; Some (Vec3 x' y' z') };
          tintColor = cloudTintColorUniform v;
          cloudColor = map_option (\<lambda>nr. mul_vec3 tintColor (1.0 - nr * 0.3)) normalizedRadius;
          densityFactor = map_option (\<lambda>nr. 1.0 - nr * 0.5) normalizedRadius;
          size = map_option (\<lambda>df. (hash (seed + 6) * 0.5 + 0.7) * df) densityFactor;
          rotation = hash (seed + 7) * 6.28318
      in \<lparr> cloud_position = initialPos, cloud_color = cloudColor, cloud_size = size,
           cloud_rotation = rotation \<rparr>)"

text \<open>
  The rotation of the position in the inline update kernels. \<open>cosTheta\<close> and
  \<open>sinTheta\<close> are evaluated for \<open>newX\<close>, from the position as it was read;
  \<open>position.x.assign(newX)\<close> then overwrites the x-component, and \<open>newZ\<close>, evaluated
  for \<open>position.z.assign(newZ)\<close>, reads \<open>position.x\<close> after that assignment.
\<close>

definition rotate_position_inline :: "compute_uniforms \<Rightarrow> vec3 \<Rightarrow> vec3" where
  "rotate_position_inline c position =
     (let dt = computeDeltaTime c;
          distFromCenter = length_vec3 (Vec3 (vec_x position) 0 (vec_z position));
          rotationFactor = 1.0 / (distFromCenter * 0.1 + 1.0);
          angularSpeed = computeRotationSpeed c * rotationFactor * dt;
          cosTheta = cos (- angularSpeed);
          sinTheta = sin (- angularSpeed);
          newX = vec_x position * cosTheta - vec_z position * sinTheta;
          position1 = Vec3 newX (vec_y position) (vec_z position);
          newZ = vec_x position1 * sinTheta + vec_z position1 * cosTheta
      in Vec3 (vec_x position1) (vec_y position1) newZ)"

text \<open>
  The rotation of the anchor in the inline update kernels: both components go into one
  new vector, evaluated before it is stored.
\<close>

definition rotate_original_inline :: "compute_uniforms \<Rightarrow> vec3 \<Rightarrow> vec3" where
  "rotate_original_inline c originalPos =
     (let dt = computeDeltaTime c;
          originalDistFromCenter =
            length_vec3 (Vec3 (vec_x originalPos) 0 (vec_z originalPos));
          originalRotationFactor = 1.0 / (originalDistFromCenter * 0.1 + 1.0);
          originalAngularSpeed = computeRotationSpeed c * originalRotationFactor * dt;
          originalCosTheta = cos (- originalAngularSpeed);
          originalSinTheta = sin (- originalAngularSpeed);
          rotatedOriginalX =
            vec_x originalPos * originalCosTheta - vec_z originalPos * originalSinTheta;
          rotatedOriginalZ =
            vec_x originalPos * originalSinTheta + vec_z originalPos * originalCosTheta
      in Vec3 rotatedOriginalX (vec_y originalPos) rotatedOriginalZ)"

definition update_kernel_inline ::
  "real \<Rightarrow> compute_uniforms \<Rightarrow> vec3 option \<Rightarrow> vec3 option \<Rightarrow> update_out" where
  "update_kernel_inline strength c position originalPos =
     (let dt = computeDeltaTime c;
          rotated = map_option (rotate_position_inline c) position;
          rotatedOriginalPos = map_option (rotate_original_inline c) originalPos;
          final = do {
            p1 \<leftarrow> rotated;
            let toMouse = sub_vec3 (computeMouse c) p1;
            let distToMouse = length_vec3 toMouse;
            ratio \<leftarrow> div_f distToMouse (computeMouseRadius c);
            let mouseInfluence = computeMouseActive c * max (1.0 - ratio) 0.0;
            mouseDir \<leftarrow> normalize_vec3 toMouse;
            let pushForce =
              negate_vec3
                (mul_vec3 (mul_vec3 (mul_vec3 mouseDir (computeMouseForce c)) mouseInfluence) dt);
            let p2 = add_vec3 p1 pushForce;
            target \<leftarrow> rotatedOriginalPos;
            let toOriginal = sub_vec3 target p2;
            let springForce = mul_vec3 (mul_vec3 toOriginal strength) dt;
            Some (add_vec3 p2 springForce)
          }
      in \<lparr> new_position = final, new_original = rotatedOriginalPos \<rparr>)"

definition computeUpdate_inline ::
  "compute_uniforms \<Rightarrow> vec3 option \<Rightarrow> vec3 option \<Rightarrow> update_out" where
  "computeUpdate_inline = update_kernel_inline 2.0"

definition cloudUpdate_inline ::
  "compute_uniforms \<Rightarrow> vec3 option \<Rightarrow> vec3 option \<Rightarrow> update_out" where
  "cloudUpdate_inline = update_kernel_inline 1.0"

section \<open>main.js: the configuration\<close>

record config =
  starCount :: nat
  rotationSpeed :: real
  spiralTightness :: real
  mouseForce :: real
  mouseRadius :: real
  galaxyRadius :: real
  galaxyThickness :: real
  armCount :: real
  armWidth :: real
  randomness :: real
  particleSize :: real
  starBrightness :: real
  denseStarColor :: color
  sparseStarColor :: color
  bloomStrength :: real
  bloomRadius :: real
  bloomThreshold :: real
  cloudCount :: nat
  cloudSize :: real
  cloudOpacity :: real
  cloudTintColor :: color

text \<open>
  The configuration main.js starts from. Each colour is written with the components of
  its hexadecimal string; the colour space conversion of the library is not modelled.
\<close>

definition main_config :: config where
  "main_config =
     \<lparr> starCount = 750000,
       rotationSpeed = 0.1,
       spiralTightness = 1.75,
       mouseForce = 7.0,
       mouseRadius = 10.0,
       galaxyRadius = 13.0,
       galaxyThickness = 3,
       armCount = 2,
       armWidth = 2.25,
       randomness = 1.8,
       particleSize = 0.06,
       starBrightness = 0.3,
       denseStarColor = Vec3 (24 / 255) (133 / 255) (255 / 255),
       sparseStarColor = Vec3 (255 / 255) (178 / 255) (138 / 255),
       bloomStrength = 0.2,
       bloomRadius = 0.2,
       bloomThreshold = 0.1,
       cloudCount = 5000,
       cloudSize = 3,
       cloudOpacity = 0.02,
       cloudTintColor = Vec3 (255 / 255) (218 / 255) (206 / 255) \<rparr>"

text \<open>
  The argument of \<open>updateUniforms\<close>: an object in which any key may be absent
  (\<open>undefined\<close>, here \<open>None\<close>).
\<close>

record configUpdate =
  cu_galaxyRadius :: "real option"
  cu_galaxyThickness :: "real option"
  cu_spiralTightness :: "real option"
  cu_armCount :: "real option"
  cu_armWidth :: "real option"
  cu_randomness :: "real option"
  cu_rotationSpeed :: "real option"
  cu_mouseForce :: "real option"
  cu_mouseRadius :: "real option"
  cu_particleSize :: "real option"
  cu_cloudSize :: "real option"
  cu_cloudOpacity :: "real option"
  cu_starBrightness :: "real option"
  cu_denseStarColor :: "color option"
  cu_sparseStarColor :: "color option"
  cu_cloudTintColor :: "color option"
  cu_cloudCount :: "nat option"

definition no_update :: configUpdate where
  "no_update =
     \<lparr> cu_galaxyRadius = None,
       cu_galaxyThickness = None,
       cu_spiralTightness = None,
       cu_armCount = None,
       cu_armWidth = None,
       cu_randomness = None,
       cu_rotationSpeed = None,
       cu_mouseForce = None,
       cu_mouseRadius = None,
       cu_particleSize = None,
       cu_cloudSize = None,
       cu_cloudOpacity = None,
       cu_starBrightness = None,
       cu_denseStarColor = None,
       cu_sparseStarColor = None,
       cu_cloudTintColor = None,
       cu_cloudCount = None \<rparr>"

text \<open>The configuration itself passed as the update, as \<open>onRegenerate\<close> does: every key is present.\<close>

definition all_of :: "config \<Rightarrow> configUpdate" where
  "all_of cfg =
     \<lparr> cu_galaxyRadius = Some (galaxyRadius cfg),
       cu_galaxyThickness = Some (galaxyThickness cfg),
       cu_spiralTightness = Some (spiralTightness cfg),
       cu_armCount = Some (armCount cfg),
       cu_armWidth = Some (armWidth cfg),
       cu_randomness = Some (randomness cfg),
       cu_rotationSpeed = Some (rotationSpeed cfg),
       cu_mouseForce = Some (mouseForce cfg),
       cu_mouseRadius = Some (mouseRadius cfg),
       cu_particleSize = Some (particleSize cfg),
       cu_cloudSize = Some (cloudSize cfg),
       cu_cloudOpacity = Some (cloudOpacity cfg),
       cu_starBrightness = Some (starBrightness cfg),
       cu_denseStarColor = Some (denseStarColor cfg),
       cu_sparseStarColor = Some (sparseStarColor cfg),
       cu_cloudTintColor = Some (cloudTintColor cfg),
       cu_cloudCount = Some (cloudCount cfg) \<rparr>"

section \<open>galaxy.js: the simulation\<close>

text \<open>
  The storage buffers of the stars, created together with one length, which is also the
  number of invocations of each star kernel. Only the simulation core is modelled: the
  scene, the sprites and their materials are left out.
\<close>

record star_system =
  spawnPositionBuffer :: "vec3 option list"
  originalPositionBuffer :: "vec3 option list"
  velocityBuffer :: "vec3 option list"
  densityFactorBuffer :: "real option list"

record cloud_system =
  cloudPositionBuffer :: "vec3 option list"
  cloudOriginalPositionBuffer :: "vec3 option list"
  cloudColorBuffer :: "vec3 option list"
  cloudSizeBuffer :: "real option list"
  cloudRotationBuffer :: "real option list"

text \<open>
  \<open>stars\<close> is \<open>None\<close> while \<open>computeInit\<close> and \<open>computeUpdate\<close> are null, and
  \<open>clouds\<close> while \<open>cloudInit\<close> and \<open>cloudUpdate\<close> are.
\<close>

record galaxy_simulation =
  sim_config :: config
  COUNT :: nat
  compute :: compute_uniforms
  galaxy :: galaxy_uniforms
  visual :: visual_uniforms
  stars :: "star_system option"
  clouds :: "cloud_system option"
  initialized :: bool
  cloudInitialized :: bool

text \<open>
  The constructor. \<open>config.galaxyThickness || 0.1\<close> replaces a thickness of 0 by 0.1;
  the configuration of main.js has every key, so the other defaults are not reached.
\<close>

definition new_GalaxySimulation :: "config \<Rightarrow> galaxy_simulation" where
  "new_GalaxySimulation cfg =
     \<lparr> sim_config = cfg,
       COUNT = starCount cfg,
       compute =
         \<lparr> computeTime = 0,
           computeDeltaTime = 0.016,
           computeMouse = Vec3 0 0 0,
           computeMouseActive = 0.0,
           computeMouseForce = mouseForce cfg,
           computeMouseRadius = mouseRadius cfg,
           computeRotationSpeed = rotationSpeed cfg \<rparr>,
       galaxy =
         \<lparr> galaxyRadiusUniform = galaxyRadius cfg,
           galaxyThicknessUniform = (if galaxyThickness cfg = 0 then 0.1 else galaxyThickness cfg),
           spiralTightnessUniform = spiralTightness cfg,
           armCountUniform = armCount cfg,
           armWidthUniform = armWidth cfg,
           randomnessUniform = randomness cfg \<rparr>,
       visual =
         \<lparr> particleSizeUniform = particleSize cfg,
           cloudSizeUniform = cloudSize cfg,
           cloudOpacityUniform = cloudOpacity cfg,
           starBrightnessUniform = starBrightness cfg,
           denseColorUniform = denseStarColor cfg,
           sparseColorUniform = sparseStarColor cfg,
           cloudTintColorUniform = cloudTintColor cfg \<rparr>,
       stars = None,
       clouds = None,
       initialized = False,
       cloudInitialized = False \<rparr>"

text \<open>\<open>instancedArray(count, type)\<close>: a buffer of \<open>count\<close> zeros.\<close>

definition instancedArray_vec3 :: "nat \<Rightarrow> vec3 option list" where
  "instancedArray_vec3 n = replicate n (Some (Vec3 0 0 0))"

definition instancedArray_float :: "nat \<Rightarrow> real option list" where
  "instancedArray_float n = replicate n (Some 0)"

definition createGalaxySystem :: "galaxy_simulation \<Rightarrow> galaxy_simulation" where
  "createGalaxySystem s =
     s\<lparr> stars := Some
          \<lparr> spawnPositionBuffer = instancedArray_vec3 (COUNT s),
            originalPositionBuffer = instancedArray_vec3 (COUNT s),
            velocityBuffer = instancedArray_vec3 (COUNT s),
            densityFactorBuffer = instancedArray_float (COUNT s) \<rparr> \<rparr>"

definition createClouds :: "galaxy_simulation \<Rightarrow> galaxy_simulation" where
  "createClouds s =
     (let CLOUD_COUNT = cloudCount (sim_config s)
      in s\<lparr> clouds := Some
               \<lparr> cloudPositionBuffer = instancedArray_vec3 CLOUD_COUNT,
                 cloudOriginalPositionBuffer = instancedArray_vec3 CLOUD_COUNT,
                 cloudColorBuffer = instancedArray_vec3 CLOUD_COUNT,
                 cloudSizeBuffer = instancedArray_float CLOUD_COUNT,
                 cloudRotationBuffer = instancedArray_float CLOUD_COUNT \<rparr>,
             cloudInitialized := False \<rparr>)"

definition updateStarCount :: "nat \<Rightarrow> galaxy_simulation \<Rightarrow> galaxy_simulation" where
  "updateStarCount newCount s =
     (let s1 = s\<lparr> COUNT := newCount \<rparr>;
          s2 = s1\<lparr> sim_config := (sim_config s1)\<lparr> starCount := newCount \<rparr> \<rparr>;
          s3 = createGalaxySystem s2
      in s3\<lparr> initialized := False \<rparr>)"

text \<open>One line of \<open>updateUniforms\<close>: a key that is present overwrites the value.\<close>

definition assign_if_defined :: "'a option \<Rightarrow> 'a \<Rightarrow> 'a" where
  "assign_if_defined u old = (case u of None \<Rightarrow> old | Some v \<Rightarrow> v)"

definition updateUniforms :: "configUpdate \<Rightarrow> galaxy_simulation \<Rightarrow> galaxy_simulation" where
  "updateUniforms configUpdate s =
     s\<lparr> galaxy :=
          \<lparr> galaxyRadiusUniform =
              assign_if_defined (cu_galaxyRadius configUpdate) (galaxyRadiusUniform (galaxy s)),
            galaxyThicknessUniform =
              assign_if_defined (cu_galaxyThickness configUpdate) (galaxyThicknessUniform (galaxy s)),
            spiralTightnessUniform =
              assign_if_defined (cu_spiralTightness configUpdate) (spiralTightnessUniform (galaxy s)),
            armCountUniform =
              assign_if_defined (cu_armCount configUpdate) (armCountUniform (galaxy s)),
            armWidthUniform =
              assign_if_defined (cu_armWidth configUpdate) (armWidthUniform (galaxy s)),
            randomnessUniform =
              assign_if_defined (cu_randomness configUpdate) (randomnessUniform (galaxy s)) \<rparr>,
        compute := (compute s)
          \<lparr> computeRotationSpeed :=
              assign_if_defined (cu_rotationSpeed configUpdate) (computeRotationSpeed (compute s)),
            computeMouseForce :=
              assign_if_defined (cu_mouseForce configUpdate) (computeMouseForce (compute s)),
            computeMouseRadius :=
              assign_if_defined (cu_mouseRadius configUpdate) (computeMouseRadius (compute s)) \<rparr>,
        visual :=
          \<lparr> particleSizeUniform =
              assign_if_defined (cu_particleSize configUpdate) (particleSizeUniform (visual s)),
            cloudSizeUniform =
              assign_if_defined (cu_cloudSize configUpdate) (cloudSizeUniform (visual s)),
            cloudOpacityUniform =
              assign_if_defined (cu_cloudOpacity configUpdate) (cloudOpacityUniform (visual s)),
            starBrightnessUniform =
              assign_if_defined (cu_starBrightness configUpdate) (starBrightnessUniform (visual s)),
            denseColorUniform =
              assign_if_defined (cu_denseStarColor configUpdate) (denseColorUniform (visual s)),
            sparseColorUniform =
              assign_if_defined (cu_sparseStarColor configUpdate) (sparseColorUniform (visual s)),
            cloudTintColorUniform =
              assign_if_defined (cu_cloudTintColor configUpdate) (cloudTintColorUniform (visual s)) \<rparr>,
        sim_config := (sim_config s)
          \<lparr> cloudCount :=
              assign_if_defined (cu_cloudCount configUpdate) (cloudCount (sim_config s)) \<rparr> \<rparr>"

definition regenerate :: "galaxy_simulation \<Rightarrow> galaxy_simulation" where
  "regenerate s = s\<lparr> initialized := False, cloudInitialized := False \<rparr>"

text \<open>One dispatch of a kernel: one invocation for each index of the buffers.\<close>

definition run_computeInit :: "galaxy_uniforms \<Rightarrow> star_system \<Rightarrow> star_system" where
  "run_computeInit g st =
     (let indices = [0 ..< length (spawnPositionBuffer st)]
      in \<lparr> spawnPositionBuffer = map (\<lambda>idx. star_position (computeInit g idx)) indices,
           originalPositionBuffer = map (\<lambda>idx. star_position (computeInit g idx)) indices,
           velocityBuffer = map (\<lambda>idx. star_velocity (computeInit g idx)) indices,
           densityFactorBuffer = map (\<lambda>idx. star_density (computeInit g idx)) indices \<rparr>)"

definition run_cloudInit ::
  "galaxy_uniforms \<Rightarrow> visual_uniforms \<Rightarrow> cloud_system \<Rightarrow> cloud_system" where
  "run_cloudInit g v cl =
     (let indices = [0 ..< length (cloudPositionBuffer cl)]
      in \<lparr> cloudPositionBuffer = map (\<lambda>idx. cloud_position (cloudInit g v idx)) indices,
           cloudOriginalPositionBuffer = map (\<lambda>idx. cloud_position (cloudInit g v idx)) indices,
           cloudColorBuffer = map (\<lambda>idx. cloud_color (cloudInit g v idx)) indices,
           cloudSizeBuffer = map (\<lambda>idx. cloud_size (cloudInit g v idx)) indices,
           cloudRotationBuffer = map (\<lambda>idx. Some (cloud_rotation (cloudInit g v idx))) indices \<rparr>)"

definition run_computeUpdate :: "compute_uniforms \<Rightarrow> star_system \<Rightarrow> star_system" where
  "run_computeUpdate c st =
     st\<lparr> spawnPositionBuffer :=
           map (\<lambda>(position, originalPos). new_position (computeUpdate c position originalPos))
             (zip (spawnPositionBuffer st) (originalPositionBuffer st)),
         originalPositionBuffer :=
           map (\<lambda>(position, originalPos). new_original (computeUpdate c position originalPos))
             (zip (spawnPositionBuffer st) (originalPositionBuffer st)) \<rparr>"

definition run_cloudUpdate :: "compute_uniforms \<Rightarrow> cloud_system \<Rightarrow> cloud_system" where
  "run_cloudUpdate c cl =
     cl\<lparr> cloudPositionBuffer :=
           map (\<lambda>(position, originalPos). new_position (cloudUpdate c position originalPos))
             (zip (cloudPositionBuffer cl) (cloudOriginalPositionBuffer cl)),
         cloudOriginalPositionBuffer :=
           map (\<lambda>(position, originalPos). new_original (cloudUpdate c position originalPos))
             (zip (cloudPositionBuffer cl) (cloudOriginalPositionBuffer cl)) \<rparr>"

text \<open>
  \<open>update\<close>, with its awaited dispatches run in order. With no star kernels
  (\<open>computeInit\<close> null) the call has nothing to dispatch and fails: \<open>None\<close>.
\<close>

definition update ::
  "galaxy_simulation \<Rightarrow> real \<Rightarrow> vec3 \<Rightarrow> bool \<Rightarrow> galaxy_simulation option" where
  "update s deltaTime mouse3D mousePressed =
     (case stars s of
        None \<Rightarrow> None
      | Some st \<Rightarrow>
          let s1 = (if \<not> initialized s
                    then s\<lparr> stars := Some (run_computeInit (galaxy s) st), initialized := True \<rparr>
                    else s);
              s2 = (if \<not> cloudInitialized s1 \<and> clouds s1 \<noteq> None
                    then s1\<lparr> clouds := map_option (run_cloudInit (galaxy s1) (visual s1)) (clouds s1),
                             cloudInitialized := True \<rparr>
                    else s1);
              s3 = s2\<lparr> compute := (compute s2)
                         \<lparr> computeTime := computeTime (compute s2) + deltaTime,
                           computeDeltaTime := deltaTime,
                           computeMouse := mouse3D,
                           computeMouseActive := (if mousePressed then 1.0 else 0.0) \<rparr> \<rparr>;
              s4 = s3\<lparr> stars := map_option (run_computeUpdate (compute s3)) (stars s3) \<rparr>;
              s5 = (if clouds s4 \<noteq> None
                    then s4\<lparr> clouds := map_option (run_cloudUpdate (compute s4)) (clouds s4) \<rparr>
                    else s4)
          in Some s5)"

section \<open>main.js: the callback of the structural controls\<close>

text \<open>
  The controls of spiral tightness, arm count, arm width, randomness, galaxy radius and
  thickness write the new value into the configuration and call \<open>onRegenerate\<close>.
\<close>

definition onRegenerate :: "galaxy_simulation \<Rightarrow> galaxy_simulation" where
  "onRegenerate s =
     (let s1 = updateUniforms (all_of (sim_config s)) s;
          s2 = createClouds s1
      in regenerate s2)"

text \<open>
  One structural control at work: the control writes the new value into the
  configuration (\<open>write\<close>), then calls \<open>onRegenerate\<close>.
\<close>

definition on_structural_change ::
  "(config \<Rightarrow> config) \<Rightarrow> galaxy_simulation \<Rightarrow> galaxy_simulation" where
  "on_structural_change write s = onRegenerate (s\<lparr> sim_config := write (sim_config s) \<rparr>)"

section \<open>Quantities the properties are stated with\<close>

text \<open>The distance from the vertical axis, \<open>length(vec3(p.x, 0, p.z))\<close> in the kernels.\<close>

definition planar_distance :: "vec3 \<Rightarrow> real" where
  "planar_distance p = length_vec3 (Vec3 (vec_x p) 0 (vec_z p))"

text \<open>The distance between two points.\<close>

definition distance_vec3 :: "vec3 \<Rightarrow> vec3 \<Rightarrow> real" where
  "distance_vec3 a b = length_vec3 (sub_vec3 a b)"

text \<open>
  The arguments of \<open>hash\<close> in the placement kernels: \<open>seed.add(salt)\<close>, where
  \<open>seed\<close> is \<open>idx.toFloat()\<close> for a star and \<open>idx.toFloat().add(10000)\<close> for a
  cloud particle.
\<close>

definition star_seed :: "nat \<Rightarrow> nat \<Rightarrow> real" where
  "star_seed idx salt = (let seed = real idx in seed + real salt)"

definition cloud_seed :: "nat \<Rightarrow> nat \<Rightarrow> real" where
  "cloud_seed idx salt = (let seed = real idx + 10000 in seed + real salt)"

text \<open>
  The distance between the position and the anchor that a kernel writes for one
  particle; undefined when either is.
\<close>

definition anchor_distance :: "update_out \<Rightarrow> real option" where
  "anchor_distance out =
     do { p \<leftarrow> new_position out; a \<leftarrow> new_original out; Some (distance_vec3 a p) }"

text \<open>
  The two buffer elements of one particle after \<open>n\<close> frames, the uniforms being the
  same in each frame.
\<close>

fun repeat_update ::
  "(vec3 option \<Rightarrow> vec3 option \<Rightarrow> update_out) \<Rightarrow> nat \<Rightarrow> vec3 option \<Rightarrow> vec3 option \<Rightarrow> update_out" where
  "repeat_update step 0 position originalPos =
     \<lparr> new_position = position, new_original = originalPos \<rparr>"
| "repeat_update step (Suc n) position originalPos =
     (let prev = repeat_update step n position originalPos
      in step (new_position prev) (new_original prev))"

section \<open>Properties of the hash\<close>

lemma fract_range: "0 \<le> fract e \<and> fract e < 1"
  unfolding fract_def floor_f_def by linarith

lemma hash_range: "0 \<le> hash seed \<and> hash seed < 1"
  unfolding hash_def Let_def by (rule fract_range)

text \<open>
  C1. For every seed \<open>s\<close>, \<open>hash s\<close> equals
  \<open>fract ((fract (s * 0.1031) + 19.19) * (fract (s * 0.1031) + 19.19 + 47.43) * fract (s * 0.1031))\<close>;
  the hash is a function of its seed alone, so that a second call with the same seed
  returns the same value; and the value lies in the half-open interval from 0 to 1.
\<close>

theorem hash_formula_pure_range:
  assumes "s' = s"
  shows "hash s' = hash s
    \<and> hash s =
        fract ((fract (s * 0.1031) + 19.19) * (fract (s * 0.1031) + 19.19 + 47.43)
               * fract (s * 0.1031))
    \<and> 0 \<le> hash s \<and> hash s < 1"
proof -
  have "hash s =
        fract ((fract (s * 0.1031) + 19.19) * (fract (s * 0.1031) + 19.19 + 47.43)
               * fract (s * 0.1031))"
    unfolding hash_def Let_def by simp
  with assms hash_range [of s] show ?thesis by simp
qed

text \<open>At seed 1 (star 0, salt 1) the hash is 0.720159926891.\<close>

theorem hash_formula_pure_range_witness:
  "hash 1 = 720159926891 / 10 ^ 12 \<and> 0 \<le> hash 1 \<and> hash 1 < 1"
proof -
  have v: "hash 1 = 720159926891 / 10 ^ 12"
    by (simp add: hash_def fract_def floor_f_def Let_def)
  from hash_formula_pure_range [of 1 1] v show ?thesis by simp
qed

section \<open>Where the two revisions of the kernels agree\<close>

lemma computeInit_inline_eq: "computeInit_inline g idx = computeInit g idx"
  unfolding computeInit_inline_def computeInit_def Let_def by simp

lemma cloudInit_inline_eq: "cloudInit_inline g v idx = cloudInit g v idx"
  unfolding cloudInit_inline_def cloudInit_def Let_def by simp

lemma rotate_original_inline_eq:
  "rotate_original_inline c a =
     applyDifferentialRotation a (computeRotationSpeed c) (computeDeltaTime c)"
  unfolding rotate_original_inline_def applyDifferentialRotation_def rotateXZ_def Let_def
  by simp

text \<open>Without rotation the inline kernels compute what the kernels on helpers.js do.\<close>

lemma rotate_position_inline_no_rotation:
  "computeRotationSpeed c = 0 \<Longrightarrow> rotate_position_inline c p = p"
  unfolding rotate_position_inline_def Let_def by (cases p) simp

lemma update_kernel_inline_no_rotation:
  assumes "computeRotationSpeed c = 0"
  shows "update_kernel_inline k c p a = update_kernel k c p a"
proof -
  have r: "applyDifferentialRotation q 0 dt = q" for q dt
    by (cases q) (simp add: applyDifferentialRotation_def rotateXZ_def Let_def)
  show ?thesis
    unfolding update_kernel_inline_def update_kernel_def applyMouseForce_def
      applySpringForce_def Let_def
    by (cases p; cases a)
      (simp_all add: assms rotate_position_inline_no_rotation rotate_original_inline_eq r)
qed

section \<open>Differential rotation\<close>

lemma length_vec3_nonneg: "0 \<le> length_vec3 v"
  unfolding length_vec3_def by simp

lemma rotation_divisor_pos: "0 < length_vec3 v * 0.1 + 1.0"
  using length_vec3_nonneg [of v] by simp

lemma rotation_squares:
  fixes x z a :: real
  shows "(x * cos a - z * sin a)\<^sup>2 + (x * sin a + z * cos a)\<^sup>2 = x\<^sup>2 + z\<^sup>2"
proof -
  have s: "sin a * sin a = 1 - cos a * cos a"
    using sin_cos_squared_add [of a] by (simp add: power2_eq_square)
  show ?thesis
    by (simp add: power2_eq_square algebra_simps s)
qed

lemma planar_distance_rotateXZ: "planar_distance (rotateXZ p angle) = planar_distance p"
  using rotation_squares [of "vec_x p" angle "vec_z p"]
  by (simp add: planar_distance_def rotateXZ_def length_vec3_def Let_def power2_eq_square)

lemma planar_distance_rotation:
  "planar_distance (applyDifferentialRotation p rs dt) = planar_distance p"
  unfolding applyDifferentialRotation_def Let_def by (rule planar_distance_rotateXZ)

lemma vec_y_rotation: "vec_y (applyDifferentialRotation p rs dt) = vec_y p"
  unfolding applyDifferentialRotation_def rotateXZ_def Let_def by simp

lemma new_original_update_kernel:
  "new_original (update_kernel k c position originalPos) =
     map_option (\<lambda>a. applyDifferentialRotation a (computeRotationSpeed c) (computeDeltaTime c))
       originalPos"
  unfolding update_kernel_def Let_def by simp

lemma new_original_update_kernel_inline:
  "new_original (update_kernel_inline k c position originalPos) =
     map_option (\<lambda>a. applyDifferentialRotation a (computeRotationSpeed c) (computeDeltaTime c))
       originalPos"
  unfolding update_kernel_inline_def Let_def
  by (cases originalPos) (simp_all add: rotate_original_inline_eq)

text \<open>
  The rotation of helpers.js keeps the distance from the vertical axis, for every point
  and every angle, and so does the differential rotation built on it. The anchor that
  the star kernel and the cloud kernel store, in either revision, is the rotated old
  anchor, at the old anchor's distance from the axis.
\<close>

lemma rotation_keeps_planar_distance:
  "planar_distance (rotateXZ p angle) = planar_distance p
   \<and> planar_distance (applyDifferentialRotation p rs dt) = planar_distance p
   \<and> map_option planar_distance (new_original (computeUpdate c position (Some a)))
       = Some (planar_distance a)
   \<and> map_option planar_distance (new_original (cloudUpdate c position (Some a)))
       = Some (planar_distance a)
   \<and> map_option planar_distance (new_original (computeUpdate_inline c position (Some a)))
       = Some (planar_distance a)
   \<and> map_option planar_distance (new_original (cloudUpdate_inline c position (Some a)))
       = Some (planar_distance a)"
  by (simp add: planar_distance_rotateXZ planar_distance_rotation computeUpdate_inline_def
      cloudUpdate_inline_def computeUpdate_def cloudUpdate_def new_original_update_kernel
      new_original_update_kernel_inline)

subsection \<open>The inline rotation of the position\<close>




section \<open>The external force\<close>

lemma length_vec3_zero_iff: "length_vec3 v = 0 \<longleftrightarrow> v = Vec3 0 0 0"
proof (cases v)
  case (Vec3 x y z)
  have "x * x + y * y + z * z = 0 \<longleftrightarrow> x = 0 \<and> y = 0 \<and> z = 0"
    using sum_squares_eq_zero_iff [of x y] 
    by (smt (verit) mult_eq_0_iff zero_le_square add_nonneg_eq_0_iff)
  then show ?thesis using Vec3 by (simp add: length_vec3_def)
qed

lemma sub_vec3_zero_iff: "sub_vec3 a b = Vec3 0 0 0 \<longleftrightarrow> a = b"
  by (cases a; cases b) (simp add: sub_vec3_def)

lemma normalize_vec3_self: "normalize_vec3 (sub_vec3 p p) = None"
  by (simp add: normalize_vec3_def length_vec3_zero_iff sub_vec3_zero_iff)

lemma applyMouseForce_at_origin: "applyMouseForce p p act F R dt = None"
  unfolding applyMouseForce_def Let_def
  by (simp add: normalize_vec3_self div_f_def)

lemma length_vec3_mul: "length_vec3 (mul_vec3 v t) = \<bar>t\<bar> * length_vec3 v"
proof -
  have "vec_x v * t * (vec_x v * t) + vec_y v * t * (vec_y v * t) + vec_z v * t * (vec_z v * t)
        = t\<^sup>2 * (vec_x v * vec_x v + vec_y v * vec_y v + vec_z v * vec_z v)"
    by (simp add: power2_eq_square algebra_simps)
  then show ?thesis
    by (simp add: length_vec3_def mul_vec3_def real_sqrt_mult)
qed

lemma applyMouseForce_defined:
  assumes "R \<noteq> 0" and "p \<noteq> m"
  shows "applyMouseForce p m act F R dt =
     Some (mul_vec3 (sub_vec3 p m)
            (F * (act * max (1 - distance_vec3 m p / R) 0) * dt / distance_vec3 m p))"
proof -
  have d: "length_vec3 (sub_vec3 m p) \<noteq> 0"
    using assms(2) by (simp add: length_vec3_zero_iff sub_vec3_zero_iff)
  show ?thesis
    unfolding applyMouseForce_def Let_def distance_vec3_def
    using d assms(1)
    by (simp add: div_f_def normalize_vec3_def mul_vec3_def negate_vec3_def sub_vec3_def
        field_simps)
qed

lemma distance_pos: "a \<noteq> b \<Longrightarrow> 0 < distance_vec3 a b"
  unfolding distance_vec3_def
  using length_vec3_nonneg [of "sub_vec3 a b"] length_vec3_zero_iff [of "sub_vec3 a b"]
  by (simp add: sub_vec3_zero_iff less_le)

lemma mul_vec3_zero: "mul_vec3 v 0 = Vec3 0 0 0"
  by (simp add: mul_vec3_def)

lemma mul_vec3_eq_zero_iff: "mul_vec3 v k = Vec3 0 0 0 \<longleftrightarrow> k = 0 \<or> v = Vec3 0 0 0"
  by (cases v) (auto simp: mul_vec3_def)

text \<open>
  C5, as the code has it. For a force radius above 0 and a particle that is not exactly
  at the force origin: the external-force step returns the zero displacement whenever
  the distance to the origin is at least the radius, whatever \<open>mouseActive\<close> is, and
  whenever the force is inactive (\<open>mouseActive = 0\<close>); when the force is active
  (\<open>mouseActive = 1\<close>), the distance is below the radius, and strength and time step
  are positive, it returns a positive multiple of \<open>position - mouse\<close>, which is not
  zero and points away from the origin.
\<close>

theorem mouse_force_falloff:
  assumes "0 < R" and "p \<noteq> m"
  shows "(R \<le> distance_vec3 m p \<longrightarrow> applyMouseForce p m act F R dt = Some (Vec3 0 0 0))
    \<and> applyMouseForce p m 0 F R dt = Some (Vec3 0 0 0)
    \<and> (distance_vec3 m p < R \<and> 0 < F \<and> 0 < dt \<longrightarrow>
         (\<exists>k>0. applyMouseForce p m 1 F R dt = Some (mul_vec3 (sub_vec3 p m) k))
         \<and> applyMouseForce p m 1 F R dt \<noteq> Some (Vec3 0 0 0))"
proof (intro conjI impI)
  have R: "R \<noteq> 0" using assms(1) by simp
  note f = applyMouseForce_defined [OF R assms(2)]
  have d: "0 < distance_vec3 m p" using assms(2) distance_pos [of m p] by simp
  show "applyMouseForce p m 0 F R dt = Some (Vec3 0 0 0)"
    by (simp add: f mul_vec3_zero)
  {
    assume far: "R \<le> distance_vec3 m p"
    then have "1 \<le> distance_vec3 m p / R" using assms(1) by (simp add: field_simps)
    then have "max (1 - distance_vec3 m p / R) 0 = 0" by simp
    then show "applyMouseForce p m act F R dt = Some (Vec3 0 0 0)"
      by (simp add: f mul_vec3_zero)
  }
  {
    assume near: "distance_vec3 m p < R \<and> 0 < F \<and> 0 < dt"
    then have "distance_vec3 m p / R < 1" using assms(1) by (simp add: field_simps)
    then have mx: "max (1 - distance_vec3 m p / R) 0 = 1 - distance_vec3 m p / R"
      and pos: "0 < 1 - distance_vec3 m p / R" by simp_all
    define k where "k = F * (1 * (1 - distance_vec3 m p / R)) * dt / distance_vec3 m p"
    have k: "0 < k" unfolding k_def using near pos d by simp
    have e: "applyMouseForce p m 1 F R dt = Some (mul_vec3 (sub_vec3 p m) k)"
      unfolding k_def using f [of 1 F dt] mx by simp
    from k e show "\<exists>k>0. applyMouseForce p m 1 F R dt = Some (mul_vec3 (sub_vec3 p m) k)"
      by blast
    from k e assms(2) show "applyMouseForce p m 1 F R dt \<noteq> Some (Vec3 0 0 0)"
      by (simp add: mul_vec3_eq_zero_iff sub_vec3_zero_iff)
  }
qed

theorem mouse_force_falloff_witness:
  "applyMouseForce (Vec3 0 0 0) (Vec3 20 0 0) 1 7 10 0.016 = Some (Vec3 0 0 0)
   \<and> applyMouseForce (Vec3 0 0 0) (Vec3 3 0 0) 0 7 10 0.016 = Some (Vec3 0 0 0)
   \<and> (\<exists>k>0. applyMouseForce (Vec3 0 0 0) (Vec3 3 0 0) 1 7 10 0.016
               = Some (mul_vec3 (sub_vec3 (Vec3 0 0 0) (Vec3 3 0 0)) k))
   \<and> applyMouseForce (Vec3 0 0 0) (Vec3 3 0 0) 1 7 10 0.016 \<noteq> Some (Vec3 0 0 0)"
proof -
  have s20: "sqrt 400 = 20" using real_sqrt_abs [of 20] by simp
  have s3: "sqrt 9 = 3" using real_sqrt_abs [of 3] by simp
  have far: "distance_vec3 (Vec3 20 0 0) (Vec3 0 0 0) = 20"
    by (simp add: distance_vec3_def sub_vec3_def length_vec3_def s20)
  have near: "distance_vec3 (Vec3 3 0 0) (Vec3 0 0 0) = 3"
    by (simp add: distance_vec3_def sub_vec3_def length_vec3_def s3)
  from mouse_force_falloff [of 10 "Vec3 0 0 0" "Vec3 20 0 0" 1 7 "0.016"] far
  have a: "applyMouseForce (Vec3 0 0 0) (Vec3 20 0 0) 1 7 10 0.016 = Some (Vec3 0 0 0)"
    by simp
  from mouse_force_falloff [of 10 "Vec3 0 0 0" "Vec3 3 0 0" 1 7 "0.016"] near
  have b: "applyMouseForce (Vec3 0 0 0) (Vec3 3 0 0) 0 7 10 0.016 = Some (Vec3 0 0 0)
   \<and> (\<exists>k>0. applyMouseForce (Vec3 0 0 0) (Vec3 3 0 0) 1 7 10 0.016
               = Some (mul_vec3 (sub_vec3 (Vec3 0 0 0) (Vec3 3 0 0)) k))
   \<and> applyMouseForce (Vec3 0 0 0) (Vec3 3 0 0) 1 7 10 0.016 \<noteq> Some (Vec3 0 0 0)"
    by simp
  from a b show ?thesis by simp
qed

text \<open>
  At the force origin itself the step has no defined result, also when the force is
  inactive: C5 as stated fails there.
\<close>

theorem mouse_force_inactive_at_origin_counterexample:
  "applyMouseForce (Vec3 0 0 0) (Vec3 0 0 0) 0 7 10 0.016 = None"
  by (rule applyMouseForce_at_origin)

lemma new_position_update_kernel:
  "new_position (update_kernel k c (Some p) (Some a)) =
     (let p1 = applyDifferentialRotation p (computeRotationSpeed c) (computeDeltaTime c);
          target = applyDifferentialRotation a (computeRotationSpeed c) (computeDeltaTime c)
      in map_option
           (\<lambda>mouseForce. add_vec3 (add_vec3 p1 mouseForce)
              (applySpringForce (add_vec3 p1 mouseForce) target k (computeDeltaTime c)))
           (applyMouseForce p1 (computeMouse c) (computeMouseActive c) (computeMouseForce c)
              (computeMouseRadius c) (computeDeltaTime c)))"
  unfolding update_kernel_def Let_def
  by (cases "applyMouseForce (applyDifferentialRotation p (computeRotationSpeed c) (computeDeltaTime c)) (computeMouse c) (computeMouseActive c) (computeMouseForce c)
              (computeMouseRadius c) (computeDeltaTime c)") simp_all

text \<open>
  C6, as the code has it. For a particle exactly at the force origin the vector handed
  to \<open>normalize\<close> is the zero vector and no guard precedes the call: the direction is
  undefined, so is the displacement, whatever \<open>mouseActive\<close>, strength, radius and time
  step are, and the position that the star kernel and the cloud kernel then store for
  the particle is undefined.
\<close>

theorem force_origin_unguarded:
  "normalize_vec3 (sub_vec3 p p) = None
   \<and> applyMouseForce p p act F R dt = None
   \<and> new_position
       (computeUpdate
          (c\<lparr> computeMouse :=
               applyDifferentialRotation p (computeRotationSpeed c) (computeDeltaTime c) \<rparr>)
          (Some p) (Some a)) = None
   \<and> new_position
       (cloudUpdate
          (c\<lparr> computeMouse :=
               applyDifferentialRotation p (computeRotationSpeed c) (computeDeltaTime c) \<rparr>)
          (Some p) (Some a)) = None"
  by (simp add: normalize_vec3_self applyMouseForce_at_origin computeUpdate_def cloudUpdate_def
      new_position_update_kernel Let_def)

lemma rotation_of_origin: "applyDifferentialRotation (Vec3 0 0 0) rs dt = Vec3 0 0 0"
  by (simp add: applyDifferentialRotation_def rotateXZ_def Let_def)

text \<open>
  With the uniforms of a new simulation (force origin at the centre) and the force
  active, the star at the centre gets an undefined position, not a zero displacement.
\<close>

theorem force_origin_counterexample:
  "new_position
     (computeUpdate
        ((compute (new_GalaxySimulation main_config))\<lparr> computeMouseActive := 1 \<rparr>)
        (Some (Vec3 0 0 0)) (Some (Vec3 0 0 0))) = None"
  by (simp add: computeUpdate_def new_position_update_kernel Let_def new_GalaxySimulation_def
      rotation_of_origin applyMouseForce_at_origin)

section \<open>The spring\<close>

lemma rotation_speed_zero: "applyDifferentialRotation p 0 dt = p"
  by (cases p) (simp add: applyDifferentialRotation_def rotateXZ_def Let_def)

lemma spring_target_distance:
  "distance_vec3 a (add_vec3 p (applySpringForce p a k dt)) = \<bar>1 - k * dt\<bar> * distance_vec3 a p"
proof -
  have "sub_vec3 a (add_vec3 p (applySpringForce p a k dt)) = mul_vec3 (sub_vec3 a p) (1 - k * dt)"
    by (cases a; cases p)
      (simp add: sub_vec3_def add_vec3_def mul_vec3_def applySpringForce_def Let_def algebra_simps)
  then show ?thesis
    by (simp add: distance_vec3_def length_vec3_mul)
qed

lemma add_vec3_zero: "add_vec3 p (Vec3 0 0 0) = p"
  by (cases p) (simp add: add_vec3_def)

lemma spring_step:
  assumes "computeMouseActive c = 0" and "computeRotationSpeed c = 0"
    and "computeMouseRadius c \<noteq> 0" and "p \<noteq> computeMouse c"
  shows "update_kernel k c (Some p) (Some a) =
           \<lparr> new_position = Some (add_vec3 p (applySpringForce p a k (computeDeltaTime c))),
             new_original = Some a \<rparr>"
proof -
  have f: "applyMouseForce p (computeMouse c) 0 (computeMouseForce c) (computeMouseRadius c)
             (computeDeltaTime c) = Some (Vec3 0 0 0)"
    using applyMouseForce_defined [OF assms(3) assms(4)] by (simp add: mul_vec3_zero)
  show ?thesis
    unfolding update_kernel_def Let_def
    by (simp add: assms(1) assms(2) rotation_speed_zero f add_vec3_zero)
qed

lemma spring_step_distance:
  assumes "computeMouseActive c = 0" and "computeRotationSpeed c = 0"
    and "computeMouseRadius c \<noteq> 0" and "p \<noteq> computeMouse c"
  shows "anchor_distance (update_kernel k c (Some p) (Some a)) =
           Some (\<bar>1 - k * computeDeltaTime c\<bar> * distance_vec3 a p)"
  by (simp add: spring_step [OF assms] anchor_distance_def spring_target_distance)

lemma spring_iterates:
  assumes "computeMouseActive c = 0" and "computeRotationSpeed c = 0"
    and "computeMouseRadius c \<noteq> 0"
    and "\<forall>j<n. new_position (repeat_update (update_kernel k c) j (Some p) (Some a))
                 \<noteq> Some (computeMouse c)"
  shows "\<exists>q. repeat_update (update_kernel k c) n (Some p) (Some a)
               = \<lparr> new_position = Some q, new_original = Some a \<rparr>
             \<and> distance_vec3 a q = \<bar>1 - k * computeDeltaTime c\<bar> ^ n * distance_vec3 a p"
  using assms(4)
proof (induction n)
  case 0
  show ?case by simp
next
  case (Suc n)
  from Suc.prems have "\<forall>j<n. new_position (repeat_update (update_kernel k c) j (Some p) (Some a))
                 \<noteq> Some (computeMouse c)" by simp
  from Suc.IH [OF this] obtain q where
    q: "repeat_update (update_kernel k c) n (Some p) (Some a)
          = \<lparr> new_position = Some q, new_original = Some a \<rparr>"
    and dq: "distance_vec3 a q = \<bar>1 - k * computeDeltaTime c\<bar> ^ n * distance_vec3 a p"
    by blast
  from Suc.prems q have ne: "q \<noteq> computeMouse c" by auto
  have "repeat_update (update_kernel k c) (Suc n) (Some p) (Some a)
          = \<lparr> new_position = Some (add_vec3 q (applySpringForce q a k (computeDeltaTime c))),
              new_original = Some a \<rparr>"
    by (simp add: q spring_step [OF assms(1-3) ne])
  moreover have "distance_vec3 a (add_vec3 q (applySpringForce q a k (computeDeltaTime c)))
          = \<bar>1 - k * computeDeltaTime c\<bar> ^ Suc n * distance_vec3 a p"
    by (simp add: spring_target_distance dq)
  ultimately show ?case by blast
qed

lemma spring_iterates_decrease:
  assumes "p \<noteq> a" and "computeMouseActive c = 0" and "computeRotationSpeed c = 0"
    and "computeMouseRadius c \<noteq> 0"
    and "0 < k * computeDeltaTime c" and "k * computeDeltaTime c < 1"
    and "\<forall>j\<le>n. new_position (repeat_update (update_kernel k c) j (Some p) (Some a))
                 \<noteq> Some (computeMouse c)"
  shows "\<exists>d d'. anchor_distance (repeat_update (update_kernel k c) n (Some p) (Some a)) = Some d
            \<and> anchor_distance (repeat_update (update_kernel k c) (Suc n) (Some p) (Some a)) = Some d'
            \<and> d' < d"
proof -
  let ?r = "\<bar>1 - k * computeDeltaTime c\<bar>"
  have d: "0 < distance_vec3 a p" using assms(1) distance_pos [of a p] by simp
  have r: "0 < ?r" "?r < 1" using assms(5,6) by simp_all
  from assms(7) have a1: "\<forall>j<n. new_position (repeat_update (update_kernel k c) j (Some p) (Some a))
                 \<noteq> Some (computeMouse c)" by simp
  from assms(7) have a2: "\<forall>j<Suc n. new_position (repeat_update (update_kernel k c) j (Some p) (Some a))
                 \<noteq> Some (computeMouse c)" by (simp add: less_Suc_eq_le)
  from spring_iterates [OF assms(2-4) a1] obtain q where
    q: "repeat_update (update_kernel k c) n (Some p) (Some a)
          = \<lparr> new_position = Some q, new_original = Some a \<rparr>"
    and dq: "distance_vec3 a q = ?r ^ n * distance_vec3 a p" by blast
  from spring_iterates [OF assms(2-4) a2] obtain q' where
    q': "repeat_update (update_kernel k c) (Suc n) (Some p) (Some a)
          = \<lparr> new_position = Some q', new_original = Some a \<rparr>"
    and dq': "distance_vec3 a q' = ?r ^ Suc n * distance_vec3 a p" by blast
  have pos: "0 < ?r ^ n * distance_vec3 a p" using r(1) d by simp
  have "?r * (?r ^ n * distance_vec3 a p) < ?r ^ n * distance_vec3 a p"
    using mult_strict_right_mono [OF r(2) pos] by simp
  then have "distance_vec3 a q' < distance_vec3 a q" by (simp add: dq dq' mult.assoc)
  moreover have "anchor_distance (repeat_update (update_kernel k c) n (Some p) (Some a))
      = Some (distance_vec3 a q)"
    unfolding q by (simp add: anchor_distance_def)
  moreover have "anchor_distance (repeat_update (update_kernel k c) (Suc n) (Some p) (Some a))
      = Some (distance_vec3 a q')"
    unfolding q' by (simp add: anchor_distance_def)
  ultimately show ?thesis by blast
qed

text \<open>
  C4, as the code has it. Take a particle whose position differs from its anchor, the
  external force inactive, \<open>rotationSpeed = 0\<close> and a force radius other than 0, and
  let \<open>springConstant * deltaTime\<close> lie strictly between 0 and 1 (the constant is 2.0
  for stars, 1.0 for clouds). If the particle is not exactly at the force origin, one
  application of the update kernel gives a defined position and anchor whose distance
  is strictly smaller than before. Repeated with the same uniforms, as long as the
  particle has never been exactly at the force origin, each application strictly
  decreases that distance again.
\<close>

theorem spring_step_contracts:
  assumes "p \<noteq> a" and "computeMouseActive c = 0" and "computeRotationSpeed c = 0"
    and "computeMouseRadius c \<noteq> 0"
  shows "(0 < 2.0 * computeDeltaTime c \<and> 2.0 * computeDeltaTime c < 1 \<and> p \<noteq> computeMouse c \<longrightarrow>
         (\<exists>d. anchor_distance (computeUpdate c (Some p) (Some a)) = Some d
              \<and> d < distance_vec3 a p))
    \<and> (0 < 1.0 * computeDeltaTime c \<and> 1.0 * computeDeltaTime c < 1 \<and> p \<noteq> computeMouse c \<longrightarrow>
         (\<exists>d. anchor_distance (cloudUpdate c (Some p) (Some a)) = Some d
              \<and> d < distance_vec3 a p))
    \<and> (0 < 2.0 * computeDeltaTime c \<and> 2.0 * computeDeltaTime c < 1
        \<and> (\<forall>j\<le>n. new_position (repeat_update (computeUpdate c) j (Some p) (Some a))
                    \<noteq> Some (computeMouse c)) \<longrightarrow>
         (\<exists>d d'. anchor_distance (repeat_update (computeUpdate c) n (Some p) (Some a)) = Some d
              \<and> anchor_distance (repeat_update (computeUpdate c) (Suc n) (Some p) (Some a)) = Some d'
              \<and> d' < d))
    \<and> (0 < 1.0 * computeDeltaTime c \<and> 1.0 * computeDeltaTime c < 1
        \<and> (\<forall>j\<le>n. new_position (repeat_update (cloudUpdate c) j (Some p) (Some a))
                    \<noteq> Some (computeMouse c)) \<longrightarrow>
         (\<exists>d d'. anchor_distance (repeat_update (cloudUpdate c) n (Some p) (Some a)) = Some d
              \<and> anchor_distance (repeat_update (cloudUpdate c) (Suc n) (Some p) (Some a)) = Some d'
              \<and> d' < d))"
proof -
  have d: "0 < distance_vec3 a p" using assms(1) distance_pos [of a p] by simp
  have one: "\<exists>d. anchor_distance (update_kernel k c (Some p) (Some a)) = Some d
                \<and> d < distance_vec3 a p"
    if "0 < k * computeDeltaTime c" and "k * computeDeltaTime c < 1" and "p \<noteq> computeMouse c"
    for k
  proof -
    from that have "\<bar>1 - k * computeDeltaTime c\<bar> < 1" by simp
    then have "\<bar>1 - k * computeDeltaTime c\<bar> * distance_vec3 a p < distance_vec3 a p"
      using mult_strict_right_mono [OF _ d, of "\<bar>1 - k * computeDeltaTime c\<bar>" 1] by simp
    then show ?thesis
      using spring_step_distance [OF assms(2-4) that(3), of k a] by simp
  qed
  note many = spring_iterates_decrease [OF assms(1-4)]
  show ?thesis
    unfolding computeUpdate_def cloudUpdate_def
    using one [of "2.0"] one [of "1.0"] many [of "2.0" n] many [of "1.0" n]
    by blast
qed

theorem spring_step_contracts_witness:
  "(\<exists>d. anchor_distance
          (computeUpdate
             ((compute (new_GalaxySimulation main_config))
                \<lparr> computeMouse := Vec3 5 0 0, computeRotationSpeed := 0 \<rparr>)
             (Some (Vec3 0 0 0)) (Some (Vec3 1 0 0))) = Some d
        \<and> d < distance_vec3 (Vec3 1 0 0) (Vec3 0 0 0))
   \<and> (\<exists>d. anchor_distance
          (cloudUpdate
             ((compute (new_GalaxySimulation main_config))
                \<lparr> computeMouse := Vec3 5 0 0, computeRotationSpeed := 0 \<rparr>)
             (Some (Vec3 0 0 0)) (Some (Vec3 1 0 0))) = Some d
        \<and> d < distance_vec3 (Vec3 1 0 0) (Vec3 0 0 0))
   \<and> (\<exists>d d'. anchor_distance
          (repeat_update
             (computeUpdate
                ((compute (new_GalaxySimulation main_config))
                   \<lparr> computeMouse := Vec3 5 0 0, computeRotationSpeed := 0 \<rparr>))
             1 (Some (Vec3 0 0 0)) (Some (Vec3 1 0 0))) = Some d
        \<and> anchor_distance
          (repeat_update
             (computeUpdate
                ((compute (new_GalaxySimulation main_config))
                   \<lparr> computeMouse := Vec3 5 0 0, computeRotationSpeed := 0 \<rparr>))
             2 (Some (Vec3 0 0 0)) (Some (Vec3 1 0 0))) = Some d'
        \<and> d' < d)
   \<and> (\<exists>d d'. anchor_distance
          (repeat_update
             (cloudUpdate
                ((compute (new_GalaxySimulation main_config))
                   \<lparr> computeMouse := Vec3 5 0 0, computeRotationSpeed := 0 \<rparr>))
             1 (Some (Vec3 0 0 0)) (Some (Vec3 1 0 0))) = Some d
        \<and> anchor_distance
          (repeat_update
             (cloudUpdate
                ((compute (new_GalaxySimulation main_config))
                   \<lparr> computeMouse := Vec3 5 0 0, computeRotationSpeed := 0 \<rparr>))
             2 (Some (Vec3 0 0 0)) (Some (Vec3 1 0 0))) = Some d'
        \<and> d' < d)"
proof -
  let ?c = "(compute (new_GalaxySimulation main_config))
              \<lparr> computeMouse := Vec3 5 0 0, computeRotationSpeed := 0 \<rparr>"
  let ?p = "Vec3 0 0 0" and ?a = "Vec3 1 0 0"
  have c: "computeMouseActive ?c = 0" "computeRotationSpeed ?c = 0"
    "computeMouseRadius ?c \<noteq> 0" "?p \<noteq> computeMouse ?c" "computeDeltaTime ?c = 0.016"
    "computeMouse ?c = Vec3 5 0 0"
    by (simp_all add: new_GalaxySimulation_def main_config_def)
  have first: "new_position (update_kernel k ?c (Some ?p) (Some ?a)) \<noteq> Some (Vec3 5 0 0)"
    if "k * 0.016 \<noteq> 5" for k
    unfolding spring_step [OF c(1-4)] c(5) using that
    by (simp add: add_vec3_def applySpringForce_def sub_vec3_def mul_vec3_def)
  have stars: "\<forall>j\<le>1. new_position (repeat_update (computeUpdate ?c) j (Some ?p) (Some ?a))
                 \<noteq> Some (computeMouse ?c)"
  proof (intro allI impI)
    fix j :: nat assume "j \<le> 1"
    then consider "j = 0" | "j = Suc 0" by linarith
    then show "new_position (repeat_update (computeUpdate ?c) j (Some ?p) (Some ?a))
                 \<noteq> Some (computeMouse ?c)"
      using first [of "2.0"] by cases (simp_all add: c(6) computeUpdate_def)
  qed
  have clouds: "\<forall>j\<le>1. new_position (repeat_update (cloudUpdate ?c) j (Some ?p) (Some ?a))
                 \<noteq> Some (computeMouse ?c)"
  proof (intro allI impI)
    fix j :: nat assume "j \<le> 1"
    then consider "j = 0" | "j = Suc 0" by linarith
    then show "new_position (repeat_update (cloudUpdate ?c) j (Some ?p) (Some ?a))
                 \<noteq> Some (computeMouse ?c)"
      using first [of "1.0"] by cases (simp_all add: c(6) cloudUpdate_def)
  qed
  have dt: "0 < 2.0 * computeDeltaTime ?c" "2.0 * computeDeltaTime ?c < 1"
    "0 < 1.0 * computeDeltaTime ?c" "1.0 * computeDeltaTime ?c < 1"
    unfolding c(5) by simp_all
  have two: "Suc 1 = 2" by simp
  from spring_step_contracts [of ?p ?a ?c 1, OF _ c(1-3)] c(4) dt stars clouds
  show ?thesis unfolding two by simp
qed

text \<open>
  A star at the force origin, its anchor elsewhere, the force inactive and no rotation:
  the kernel leaves the position undefined, so that no distance to the anchor is left
  to compare. C4 as stated fails there.
\<close>

theorem spring_at_force_origin_counterexample:
  "Vec3 0 0 0 \<noteq> Vec3 1 0 0
   \<and> computeMouseActive ((compute (new_GalaxySimulation main_config))\<lparr> computeRotationSpeed := 0 \<rparr>) = 0
   \<and> computeRotationSpeed ((compute (new_GalaxySimulation main_config))\<lparr> computeRotationSpeed := 0 \<rparr>) = 0
   \<and> 0 < 2.0 * computeDeltaTime ((compute (new_GalaxySimulation main_config))\<lparr> computeRotationSpeed := 0 \<rparr>)
   \<and> 2.0 * computeDeltaTime ((compute (new_GalaxySimulation main_config))\<lparr> computeRotationSpeed := 0 \<rparr>) < 1
   \<and> anchor_distance
        (computeUpdate ((compute (new_GalaxySimulation main_config))\<lparr> computeRotationSpeed := 0 \<rparr>)
           (Some (Vec3 0 0 0)) (Some (Vec3 1 0 0))) = None"
  by (simp add: anchor_distance_def computeUpdate_def new_position_update_kernel Let_def
      new_GalaxySimulation_def rotation_of_origin applyMouseForce_at_origin)

section \<open>What an update writes\<close>

text \<open>
  C10. The star kernel and the cloud kernel are one kernel with spring strength 2.0
  and 1.0. In every update, in either revision of the kernels, the anchor stored is the
  differential rotation of the old anchor and nothing else: its y-component is the old
  one, and it is the same whatever the force origin, the activity, strength and radius
  of the force, the spring strength and the particle's position are. The position
  stored is the rotated position plus the mouse force plus the spring force towards the
  rotated anchor, where the mouse force is defined: those two displacements go to the
  position only.
\<close>

theorem anchor_only_rotated:
  "computeUpdate = update_kernel 2.0 \<and> cloudUpdate = update_kernel 1.0
   \<and> computeUpdate_inline = update_kernel_inline 2.0
   \<and> cloudUpdate_inline = update_kernel_inline 1.0
   \<and> new_original (update_kernel k c position (Some a))
       = Some (applyDifferentialRotation a (computeRotationSpeed c) (computeDeltaTime c))
   \<and> new_original (update_kernel_inline k c position (Some a))
       = Some (applyDifferentialRotation a (computeRotationSpeed c) (computeDeltaTime c))
   \<and> vec_y (applyDifferentialRotation a (computeRotationSpeed c) (computeDeltaTime c)) = vec_y a
   \<and> new_original
        (update_kernel k'
           (c\<lparr> computeMouse := m, computeMouseActive := act, computeMouseForce := F,
               computeMouseRadius := R \<rparr>)
           position' (Some a))
       = new_original (update_kernel k c position (Some a))
   \<and> new_original
        (update_kernel_inline k'
           (c\<lparr> computeMouse := m, computeMouseActive := act, computeMouseForce := F,
               computeMouseRadius := R \<rparr>)
           position' (Some a))
       = new_original (update_kernel_inline k c position (Some a))
   \<and> new_position (update_kernel k c (Some p) (Some a))
       = (let p1 = applyDifferentialRotation p (computeRotationSpeed c) (computeDeltaTime c);
              target = applyDifferentialRotation a (computeRotationSpeed c) (computeDeltaTime c)
          in map_option
               (\<lambda>mouseForce. add_vec3 (add_vec3 p1 mouseForce)
                  (applySpringForce (add_vec3 p1 mouseForce) target k (computeDeltaTime c)))
               (applyMouseForce p1 (computeMouse c) (computeMouseActive c) (computeMouseForce c)
                  (computeMouseRadius c) (computeDeltaTime c)))"
  by (simp add: computeUpdate_def cloudUpdate_def computeUpdate_inline_def cloudUpdate_inline_def
      new_original_update_kernel new_original_update_kernel_inline vec_y_rotation
      new_position_update_kernel)

section \<open>Placement\<close>

lemma planar_distance_polar: "planar_distance (Vec3 (cos t * r) y (sin t * r)) = \<bar>r\<bar>"
proof -
  have s: "sin t * sin t = 1 - cos t * cos t"
    using sin_cos_squared_add [of t] by (simp add: power2_eq_square)
  have "cos t * r * (cos t * r) + sin t * r * (sin t * r) = r\<^sup>2"
    by (simp add: power2_eq_square algebra_simps s)
  then show ?thesis
    by (simp add: planar_distance_def length_vec3_def)
qed

lemma star_position_defined:
  assumes "armCountUniform g \<noteq> 0" and "galaxyRadiusUniform g \<noteq> 0"
  shows "\<exists>t. star_position (computeInit g idx) =
           Some (Vec3 (cos t * (hash (real idx + 1) powr 0.5 * galaxyRadiusUniform g
                                + (hash (real idx + 4) - 0.5) * armWidthUniform g))
                      ((hash (real idx + 5) - 0.5) * galaxyThicknessUniform g
                        * (1.0 - hash (real idx + 1) powr 0.5 * galaxyRadiusUniform g
                                   / galaxyRadiusUniform g + 0.2))
                      (sin t * (hash (real idx + 1) powr 0.5 * galaxyRadiusUniform g
                                + (hash (real idx + 4) - 0.5) * armWidthUniform g)))"
  unfolding computeInit_def Let_def using assms by (simp add: div_f_def) blast

lemma cloud_position_defined:
  assumes "armCountUniform g \<noteq> 0" and "galaxyRadiusUniform g \<noteq> 0"
  shows "\<exists>t. cloud_position (cloudInit g v idx) =
           Some (Vec3 (cos t * (hash (real idx + 10000 + 1) powr 0.7 * galaxyRadiusUniform g
                                + (hash (real idx + 10000 + 4) - 0.5) * armWidthUniform g))
                      ((hash (real idx + 10000 + 5) - 0.5) * galaxyThicknessUniform g
                        * (1.0 - hash (real idx + 10000 + 1) powr 0.7 * galaxyRadiusUniform g
                                   / galaxyRadiusUniform g + 0.15))
                      (sin t * (hash (real idx + 10000 + 1) powr 0.7 * galaxyRadiusUniform g
                                + (hash (real idx + 10000 + 4) - 0.5) * armWidthUniform g)))"
  unfolding cloudInit_def Let_def using assms by (simp add: div_f_def) blast

text \<open>
  C2. For parameters in their range (arm count not 0, galaxy radius above 0) and every
  particle index, the placement kernels give the star and the cloud particle a defined
  position; with \<open>randomness = 0\<close> and \<open>armWidth = 0\<close> its distance from the vertical
  axis is \<open>hash (seed + 1) powr p * galaxyRadius\<close>, with \<open>p = 0.5\<close> and
  \<open>seed = idx\<close> for a star, \<open>p = 0.7\<close> and \<open>seed = idx + 10000\<close> for a cloud
  particle; with \<open>galaxyThickness = 0\<close> its y-coordinate is 0. Both revisions of the
  kernels compute the same values.
\<close>

theorem placement_radius_and_flat_disc:
  assumes "armCountUniform g \<noteq> 0" and "0 < galaxyRadiusUniform g"
  shows "computeInit_inline g idx = computeInit g idx
    \<and> cloudInit_inline g v idx = cloudInit g v idx
    \<and> (\<exists>ps pc. star_position (computeInit g idx) = Some ps
          \<and> cloud_position (cloudInit g v idx) = Some pc
          \<and> (randomnessUniform g = 0 \<and> armWidthUniform g = 0 \<longrightarrow>
                planar_distance ps = hash (star_seed idx 1) powr 0.5 * galaxyRadiusUniform g
              \<and> planar_distance pc = hash (cloud_seed idx 1) powr 0.7 * galaxyRadiusUniform g)
          \<and> (galaxyThicknessUniform g = 0 \<longrightarrow> vec_y ps = 0 \<and> vec_y pc = 0))"
proof -
  have R: "galaxyRadiusUniform g \<noteq> 0" using assms(2) by simp
  from star_position_defined [OF assms(1) R, of idx] obtain t where
    ps: "star_position (computeInit g idx) =
           Some (Vec3 (cos t * (hash (real idx + 1) powr 0.5 * galaxyRadiusUniform g
                                + (hash (real idx + 4) - 0.5) * armWidthUniform g))
                      ((hash (real idx + 5) - 0.5) * galaxyThicknessUniform g
                        * (1.0 - hash (real idx + 1) powr 0.5 * galaxyRadiusUniform g
                                   / galaxyRadiusUniform g + 0.2))
                      (sin t * (hash (real idx + 1) powr 0.5 * galaxyRadiusUniform g
                                + (hash (real idx + 4) - 0.5) * armWidthUniform g)))"
    by blast
  from cloud_position_defined [OF assms(1) R, of v idx] obtain u where
    pc: "cloud_position (cloudInit g v idx) =
           Some (Vec3 (cos u * (hash (real idx + 10000 + 1) powr 0.7 * galaxyRadiusUniform g
                                + (hash (real idx + 10000 + 4) - 0.5) * armWidthUniform g))
                      ((hash (real idx + 10000 + 5) - 0.5) * galaxyThicknessUniform g
                        * (1.0 - hash (real idx + 10000 + 1) powr 0.7 * galaxyRadiusUniform g
                                   / galaxyRadiusUniform g + 0.15))
                      (sin u * (hash (real idx + 10000 + 1) powr 0.7 * galaxyRadiusUniform g
                                + (hash (real idx + 10000 + 4) - 0.5) * armWidthUniform g)))"
    by blast
  have nn: "0 \<le> hash s powr e * galaxyRadiusUniform g" for s e
    using assms(2) by simp
  show ?thesis
    unfolding ps pc
    using nn [of "real idx + 1" "0.5"] nn [of "real idx + 10000 + 1" "0.7"]
    by (simp add: computeInit_inline_eq cloudInit_inline_eq planar_distance_polar
        star_seed_def cloud_seed_def Let_def)
qed

theorem placement_radius_and_flat_disc_witness:
  "\<exists>ps pc.
       star_position
         (computeInit
            ((galaxy (new_GalaxySimulation main_config))
               \<lparr> galaxyThicknessUniform := 0, armWidthUniform := 0, randomnessUniform := 0 \<rparr>) 0)
         = Some ps
     \<and> cloud_position
         (cloudInit
            ((galaxy (new_GalaxySimulation main_config))
               \<lparr> galaxyThicknessUniform := 0, armWidthUniform := 0, randomnessUniform := 0 \<rparr>)
            (visual (new_GalaxySimulation main_config)) 0)
         = Some pc
     \<and> planar_distance ps = hash 1 powr 0.5 * 13
     \<and> planar_distance pc = hash 10001 powr 0.7 * 13
     \<and> vec_y ps = 0 \<and> vec_y pc = 0"
  using placement_radius_and_flat_disc
    [of "(galaxy (new_GalaxySimulation main_config))
           \<lparr> galaxyThicknessUniform := 0, armWidthUniform := 0, randomnessUniform := 0 \<rparr>"
        0 "visual (new_GalaxySimulation main_config)"]
  by (simp add: new_GalaxySimulation_def main_config_def star_seed_def cloud_seed_def)

section \<open>Seeds of the two populations\<close>

text \<open>The kernels draw from these seeds: the salts 3 and 4 of a star, the salt 7 of a cloud.\<close>

lemma kernel_seeds:
  "star_density (computeInit g idx) =
     do { rs \<leftarrow> div_f \<bar>(hash (star_seed idx 4) - 0.5) * armWidthUniform g\<bar>
                  (armWidthUniform g * 0.5 + 0.01);
          as \<leftarrow> div_f \<bar>(hash (star_seed idx 3) - 0.5) * randomnessUniform g\<bar>
                  (randomnessUniform g * 0.5 + 0.01);
          Some (min ((rs + as) * 0.5) 1.0) }"
  "cloud_rotation (cloudInit g v idx) = hash (cloud_seed idx 7) * 6.28318"
  by (simp_all add: computeInit_def cloudInit_def star_seed_def cloud_seed_def Let_def)

lemma cloud_shares_seeds_with_star: "star_seed (idx + 10000) salt = cloud_seed idx salt"
  by (simp add: star_seed_def cloud_seed_def Let_def)

lemma seeds_disjoint_small:
  assumes "i < N" and "N \<le> (9996::nat)" and "s \<le> 5" and "1 \<le> t"
  shows "star_seed i s \<noteq> cloud_seed j t"
proof -
  have "real i + real s < real j + 10000 + real t"
    using assms by simp
  then show ?thesis by (simp add: star_seed_def cloud_seed_def Let_def)
qed

text \<open>
  C7 says that no hash seed of a star, \<open>i + s\<close> with \<open>i\<close> below the star count and
  salt \<open>s\<close> from 1 to 5, equals a hash seed of a cloud particle, \<open>j + 10000 + t\<close> with
  \<open>j\<close> below the cloud count and salt \<open>t\<close> from 1 to 7. The offset separates the
  seeds only for at most 9996 stars (lemma \<open>seeds_disjoint_small\<close>). With the
  populations main.js starts from, 750000 stars and 5000 cloud particles, star 10000 and
  cloud particle 0 both draw \<open>hash 10001\<close> with salt 1, and every cloud particle
  \<open>j\<close> shares its seeds with star \<open>j + 10000\<close> (lemma
  \<open>cloud_shares_seeds_with_star\<close>).
\<close>

theorem star_cloud_seed_collision:
  "10000 < starCount main_config \<and> 0 < cloudCount main_config
   \<and> star_seed 10000 1 = cloud_seed 0 1
   \<and> hash (star_seed 10000 1) = hash (cloud_seed 0 1)"
  by (simp add: main_config_def star_seed_def cloud_seed_def)

section \<open>Setting parameters\<close>

lemma computeInit_armCount_zero:
  "star_position (computeInit (g\<lparr> armCountUniform := 0 \<rparr>) idx) = None"
  by (simp add: computeInit_def Let_def div_f_def)

lemma cloudInit_armCount_zero:
  "cloud_position (cloudInit (g\<lparr> armCountUniform := 0 \<rparr>) v idx) = None"
  by (simp add: cloudInit_def Let_def div_f_def)

text \<open>
  C8, as the code has it. \<open>updateUniforms\<close> checks no value and reports no error:
  whatever arm count or galaxy radius it is given, zero and negative values included,
  becomes the value of the uniform, and the previous value is not kept. With an arm
  count of 0 the placement kernels then divide by zero, and the position of every star
  and every cloud particle is undefined. \<open>updateStarCount\<close> stores the count it is
  given in the same way.
\<close>

theorem updateUniforms_stores_unvalidated:
  "armCountUniform (galaxy (updateUniforms (cu\<lparr> cu_armCount := Some n \<rparr>) s)) = n
   \<and> galaxyRadiusUniform (galaxy (updateUniforms (cu\<lparr> cu_galaxyRadius := Some r \<rparr>) s)) = r
   \<and> galaxy (updateUniforms (no_update\<lparr> cu_armCount := Some n \<rparr>) s)
       = (galaxy s)\<lparr> armCountUniform := n \<rparr>
   \<and> galaxy (updateUniforms (no_update\<lparr> cu_galaxyRadius := Some r \<rparr>) s)
       = (galaxy s)\<lparr> galaxyRadiusUniform := r \<rparr>
   \<and> star_position
        (computeInit (galaxy (updateUniforms (cu\<lparr> cu_armCount := Some 0 \<rparr>) s)) idx) = None
   \<and> cloud_position
        (cloudInit (galaxy (updateUniforms (cu\<lparr> cu_armCount := Some 0 \<rparr>) s)) v idx) = None
   \<and> COUNT (updateStarCount N s) = N
   \<and> starCount (sim_config (updateStarCount N s)) = N"
  by (simp add: updateUniforms_def assign_if_defined_def no_update_def computeInit_def
      cloudInit_def updateStarCount_def createGalaxySystem_def Let_def div_f_def)

text \<open>
  On a new simulation with the configuration of main.js (two arms), an update to zero
  arms is accepted, and so is a radius of -1.
\<close>

theorem armCount_zero_accepted_counterexample:
  "armCountUniform (galaxy (new_GalaxySimulation main_config)) = 2
   \<and> armCountUniform
        (galaxy (updateUniforms (no_update\<lparr> cu_armCount := Some 0 \<rparr>)
                   (new_GalaxySimulation main_config))) = 0
   \<and> galaxyRadiusUniform
        (galaxy (updateUniforms (no_update\<lparr> cu_galaxyRadius := Some (- 1) \<rparr>)
                   (new_GalaxySimulation main_config))) = - 1"
  by (simp add: updateUniforms_def assign_if_defined_def no_update_def new_GalaxySimulation_def
      main_config_def)

section \<open>Regeneration\<close>

lemma zip_map_same: "zip (map f xs) (map g xs) = map (\<lambda>x. (f x, g x)) xs"
  by (induction xs) simp_all

lemma run_computeUpdate_after_init:
  "run_computeUpdate c (run_computeInit g st) =
     \<lparr> spawnPositionBuffer =
         map (\<lambda>idx. new_position (computeUpdate c (star_position (computeInit g idx))
                                      (star_position (computeInit g idx))))
           [0 ..< length (spawnPositionBuffer st)],
       originalPositionBuffer =
         map (\<lambda>idx. new_original (computeUpdate c (star_position (computeInit g idx))
                                      (star_position (computeInit g idx))))
           [0 ..< length (spawnPositionBuffer st)],
       velocityBuffer =
         map (\<lambda>idx. star_velocity (computeInit g idx)) [0 ..< length (spawnPositionBuffer st)],
       densityFactorBuffer =
         map (\<lambda>idx. star_density (computeInit g idx)) [0 ..< length (spawnPositionBuffer st)] \<rparr>"
  by (simp add: run_computeUpdate_def run_computeInit_def Let_def zip_map_same o_def)

lemma run_cloudUpdate_after_init:
  "run_cloudUpdate c (run_cloudInit g v cl) =
     \<lparr> cloudPositionBuffer =
         map (\<lambda>idx. new_position (cloudUpdate c (cloud_position (cloudInit g v idx))
                                      (cloud_position (cloudInit g v idx))))
           [0 ..< length (cloudPositionBuffer cl)],
       cloudOriginalPositionBuffer =
         map (\<lambda>idx. new_original (cloudUpdate c (cloud_position (cloudInit g v idx))
                                      (cloud_position (cloudInit g v idx))))
           [0 ..< length (cloudPositionBuffer cl)],
       cloudColorBuffer =
         map (\<lambda>idx. cloud_color (cloudInit g v idx)) [0 ..< length (cloudPositionBuffer cl)],
       cloudSizeBuffer =
         map (\<lambda>idx. cloud_size (cloudInit g v idx)) [0 ..< length (cloudPositionBuffer cl)],
       cloudRotationBuffer =
         map (\<lambda>idx. Some (cloud_rotation (cloudInit g v idx)))
           [0 ..< length (cloudPositionBuffer cl)] \<rparr>"
  by (simp add: run_cloudUpdate_def run_cloudInit_def Let_def zip_map_same o_def)

lemma onRegenerate_state:
  "onRegenerate s =
     s\<lparr> galaxy :=
          \<lparr> galaxyRadiusUniform = galaxyRadius (sim_config s),
            galaxyThicknessUniform = galaxyThickness (sim_config s),
            spiralTightnessUniform = spiralTightness (sim_config s),
            armCountUniform = armCount (sim_config s),
            armWidthUniform = armWidth (sim_config s),
            randomnessUniform = randomness (sim_config s) \<rparr>,
        compute := (compute s)
          \<lparr> computeRotationSpeed := rotationSpeed (sim_config s),
            computeMouseForce := mouseForce (sim_config s),
            computeMouseRadius := mouseRadius (sim_config s) \<rparr>,
        visual :=
          \<lparr> particleSizeUniform = particleSize (sim_config s),
            cloudSizeUniform = cloudSize (sim_config s),
            cloudOpacityUniform = cloudOpacity (sim_config s),
            starBrightnessUniform = starBrightness (sim_config s),
            denseColorUniform = denseStarColor (sim_config s),
            sparseColorUniform = sparseStarColor (sim_config s),
            cloudTintColorUniform = cloudTintColor (sim_config s) \<rparr>,
        clouds := Some
          \<lparr> cloudPositionBuffer = instancedArray_vec3 (cloudCount (sim_config s)),
            cloudOriginalPositionBuffer = instancedArray_vec3 (cloudCount (sim_config s)),
            cloudColorBuffer = instancedArray_vec3 (cloudCount (sim_config s)),
            cloudSizeBuffer = instancedArray_float (cloudCount (sim_config s)),
            cloudRotationBuffer = instancedArray_float (cloudCount (sim_config s)) \<rparr>,
        initialized := False,
        cloudInitialized := False \<rparr>"
  by (simp add: onRegenerate_def updateUniforms_def all_of_def assign_if_defined_def
      createClouds_def regenerate_def Let_def)

lemma update_uninitialized:
  assumes "stars s = Some st" and "clouds s = Some cl"
    and "\<not> initialized s" and "\<not> cloudInitialized s"
  shows "update s dt m pressed =
     Some (s\<lparr> stars := Some (run_computeUpdate
                  ((compute s)\<lparr> computeTime := computeTime (compute s) + dt,
                     computeDeltaTime := dt, computeMouse := m,
                     computeMouseActive := (if pressed then 1.0 else 0.0) \<rparr>)
                  (run_computeInit (galaxy s) st)),
             clouds := Some (run_cloudUpdate
                  ((compute s)\<lparr> computeTime := computeTime (compute s) + dt,
                     computeDeltaTime := dt, computeMouse := m,
                     computeMouseActive := (if pressed then 1.0 else 0.0) \<rparr>)
                  (run_cloudInit (galaxy s) (visual s) cl)),
             compute := (compute s)\<lparr> computeTime := computeTime (compute s) + dt,
                     computeDeltaTime := dt, computeMouse := m,
                     computeMouseActive := (if pressed then 1.0 else 0.0) \<rparr>,
             initialized := True, cloudInitialized := True \<rparr>)"
  using assms by (simp add: update_def Let_def)

text \<open>
  C9. Take a simulation whose star and cloud populations are initialized, and let a
  structural control change the configuration (the arm count from 2 to 3, say). After
  the change neither population is initialized, and the generation uniforms hold the
  new values. The next \<open>update\<close> then succeeds, leaves both populations initialized,
  and stores for every star and every cloud particle what the update kernel computes
  from the placement that the init kernel computes with the new uniforms: the placement
  pass runs over all particles first, the update pass after it.
\<close>

theorem structural_change_regenerates:
  assumes "initialized s" and "cloudInitialized s" and "stars s = Some st"
    and "s1 = on_structural_change write s"
  shows "\<not> initialized s1 \<and> \<not> cloudInitialized s1
    \<and> galaxy s1 =
        \<lparr> galaxyRadiusUniform = galaxyRadius (write (sim_config s)),
          galaxyThicknessUniform = galaxyThickness (write (sim_config s)),
          spiralTightnessUniform = spiralTightness (write (sim_config s)),
          armCountUniform = armCount (write (sim_config s)),
          armWidthUniform = armWidth (write (sim_config s)),
          randomnessUniform = randomness (write (sim_config s)) \<rparr>
    \<and> (\<exists>s2 cl1.
          update s1 dt m pressed = Some s2
        \<and> initialized s2 \<and> cloudInitialized s2 \<and> galaxy s2 = galaxy s1
        \<and> computeDeltaTime (compute s2) = dt
        \<and> clouds s1 = Some cl1
        \<and> length (cloudPositionBuffer cl1) = cloudCount (write (sim_config s))
        \<and> stars s2 = Some (run_computeUpdate (compute s2) (run_computeInit (galaxy s1) st))
        \<and> clouds s2 =
            Some (run_cloudUpdate (compute s2) (run_cloudInit (galaxy s1) (visual s1) cl1))
        \<and> map_option spawnPositionBuffer (stars s2) =
            Some (map (\<lambda>idx. new_position
                          (computeUpdate (compute s2)
                             (star_position (computeInit (galaxy s1) idx))
                             (star_position (computeInit (galaxy s1) idx))))
                    [0 ..< length (spawnPositionBuffer st)])
        \<and> map_option cloudPositionBuffer (clouds s2) =
            Some (map (\<lambda>idx. new_position
                          (cloudUpdate (compute s2)
                             (cloud_position (cloudInit (galaxy s1) (visual s1) idx))
                             (cloud_position (cloudInit (galaxy s1) (visual s1) idx))))
                    [0 ..< cloudCount (write (sim_config s))]))"
proof -
  let ?s = "s\<lparr> sim_config := write (sim_config s) \<rparr>"
  have s1: "s1 = onRegenerate ?s"
    using assms(4) by (simp add: on_structural_change_def)
  note r = onRegenerate_state [of ?s]
  have flags: "\<not> initialized s1" "\<not> cloudInitialized s1"
    unfolding s1 r by simp_all
  have g: "galaxy s1 =
        \<lparr> galaxyRadiusUniform = galaxyRadius (write (sim_config s)),
          galaxyThicknessUniform = galaxyThickness (write (sim_config s)),
          spiralTightnessUniform = spiralTightness (write (sim_config s)),
          armCountUniform = armCount (write (sim_config s)),
          armWidthUniform = armWidth (write (sim_config s)),
          randomnessUniform = randomness (write (sim_config s)) \<rparr>"
    unfolding s1 r by simp
  define cl1 where "cl1 =
          \<lparr> cloudPositionBuffer = instancedArray_vec3 (cloudCount (write (sim_config s))),
            cloudOriginalPositionBuffer = instancedArray_vec3 (cloudCount (write (sim_config s))),
            cloudColorBuffer = instancedArray_vec3 (cloudCount (write (sim_config s))),
            cloudSizeBuffer = instancedArray_float (cloudCount (write (sim_config s))),
            cloudRotationBuffer = instancedArray_float (cloudCount (write (sim_config s))) \<rparr>"
  have cl: "clouds s1 = Some cl1" unfolding s1 r cl1_def by simp
  have len: "length (cloudPositionBuffer cl1) = cloudCount (write (sim_config s))"
    by (simp add: cl1_def instancedArray_vec3_def)
  have st: "stars s1 = Some st" unfolding s1 r using assms(3) by simp
  note u = update_uninitialized [OF st cl flags, of dt m pressed]
  define s2 where "s2 = the (update s1 dt m pressed)"
  have s2: "update s1 dt m pressed = Some s2" unfolding s2_def u by simp
  have s2': "s2 = s1\<lparr> stars := Some (run_computeUpdate
                  ((compute s1)\<lparr> computeTime := computeTime (compute s1) + dt,
                     computeDeltaTime := dt, computeMouse := m,
                     computeMouseActive := (if pressed then 1.0 else 0.0) \<rparr>)
                  (run_computeInit (galaxy s1) st)),
             clouds := Some (run_cloudUpdate
                  ((compute s1)\<lparr> computeTime := computeTime (compute s1) + dt,
                     computeDeltaTime := dt, computeMouse := m,
                     computeMouseActive := (if pressed then 1.0 else 0.0) \<rparr>)
                  (run_cloudInit (galaxy s1) (visual s1) cl1)),
             compute := (compute s1)\<lparr> computeTime := computeTime (compute s1) + dt,
                     computeDeltaTime := dt, computeMouse := m,
                     computeMouseActive := (if pressed then 1.0 else 0.0) \<rparr>,
             initialized := True, cloudInitialized := True \<rparr>"
    using s2 unfolding u by simp
  have a: "initialized s2" "cloudInitialized s2" "galaxy s2 = galaxy s1"
    "computeDeltaTime (compute s2) = dt"
    by (simp_all add: s2')
  have b: "stars s2 = Some (run_computeUpdate (compute s2) (run_computeInit (galaxy s1) st))"
    by (simp add: s2')
  have c: "clouds s2 =
            Some (run_cloudUpdate (compute s2) (run_cloudInit (galaxy s1) (visual s1) cl1))"
    by (simp add: s2')
  have d: "map_option spawnPositionBuffer (stars s2) =
            Some (map (\<lambda>idx. new_position
                          (computeUpdate (compute s2)
                             (star_position (computeInit (galaxy s1) idx))
                             (star_position (computeInit (galaxy s1) idx))))
                    [0 ..< length (spawnPositionBuffer st)])"
    unfolding b by (simp add: run_computeUpdate_after_init)
  have e: "map_option cloudPositionBuffer (clouds s2) =
            Some (map (\<lambda>idx. new_position
                          (cloudUpdate (compute s2)
                             (cloud_position (cloudInit (galaxy s1) (visual s1) idx))
                             (cloud_position (cloudInit (galaxy s1) (visual s1) idx))))
                    [0 ..< cloudCount (write (sim_config s))])"
    unfolding c by (simp add: run_cloudUpdate_after_init len)
  from flags g s2 a cl len b c d e show ?thesis by blast
qed

text \<open>
  Three stars and two cloud particles, initialized by a first frame; then the arm count
  changes from 2 to 3.
\<close>

theorem structural_change_regenerates_witness:
  "let s0 = createClouds (createGalaxySystem
              (new_GalaxySimulation (main_config\<lparr> starCount := 3, cloudCount := 2 \<rparr>)));
       s = the (update s0 0.016 (Vec3 0 0 0) False);
       s1 = on_structural_change (\<lambda>cfg. cfg\<lparr> armCount := 3 \<rparr>) s
   in initialized s \<and> cloudInitialized s \<and> armCountUniform (galaxy s) = 2
    \<and> \<not> initialized s1 \<and> \<not> cloudInitialized s1 \<and> armCountUniform (galaxy s1) = 3
    \<and> (\<exists>s2. update s1 0.016 (Vec3 0 0 0) False = Some s2
          \<and> initialized s2 \<and> cloudInitialized s2
          \<and> armCountUniform (galaxy s2) = 3
          \<and> map_option spawnPositionBuffer (stars s2) =
              Some (map (\<lambda>idx. new_position
                            (computeUpdate (compute s2)
                               (star_position (computeInit (galaxy s1) idx))
                               (star_position (computeInit (galaxy s1) idx))))
                      [0 ..< 3])
          \<and> map_option cloudPositionBuffer (clouds s2) =
              Some (map (\<lambda>idx. new_position
                            (cloudUpdate (compute s2)
                               (cloud_position (cloudInit (galaxy s1) (visual s1) idx))
                               (cloud_position (cloudInit (galaxy s1) (visual s1) idx))))
                      [0 ..< 2]))"
proof -
  define s0 where "s0 = createClouds (createGalaxySystem
              (new_GalaxySimulation (main_config\<lparr> starCount := 3, cloudCount := 2 \<rparr>)))"
  define s where "s = the (update s0 0.016 (Vec3 0 0 0) False)"
  define s1 where "s1 = on_structural_change (\<lambda>cfg. cfg\<lparr> armCount := 3 \<rparr>) s"
  define st0 where "st0 =
     \<lparr> spawnPositionBuffer = instancedArray_vec3 3, originalPositionBuffer = instancedArray_vec3 3,
       velocityBuffer = instancedArray_vec3 3, densityFactorBuffer = instancedArray_float 3 \<rparr>"
  define cl0 where "cl0 =
     \<lparr> cloudPositionBuffer = instancedArray_vec3 2, cloudOriginalPositionBuffer = instancedArray_vec3 2,
       cloudColorBuffer = instancedArray_vec3 2, cloudSizeBuffer = instancedArray_float 2,
       cloudRotationBuffer = instancedArray_float 2 \<rparr>"
  have s0: "stars s0 = Some st0" "clouds s0 = Some cl0" "\<not> initialized s0" "\<not> cloudInitialized s0"
    "armCountUniform (galaxy s0) = 2" "cloudCount (sim_config s0) = 2"
    by (simp_all add: s0_def st0_def cl0_def createClouds_def createGalaxySystem_def
        new_GalaxySimulation_def main_config_def Let_def)
  note u = update_uninitialized [OF s0(1-4), of "0.016" "Vec3 0 0 0" False]
  have s: "initialized s" "cloudInitialized s" "armCountUniform (galaxy s) = 2"
    "cloudCount (sim_config s) = 2"
    "stars s = Some (run_computeUpdate (compute s) (run_computeInit (galaxy s0) st0))"
    unfolding s_def u using s0(5,6) by simp_all
  have len: "length (spawnPositionBuffer (run_computeUpdate (compute s) (run_computeInit (galaxy s0) st0))) = 3"
    by (simp add: run_computeUpdate_after_init st0_def instancedArray_vec3_def)
  from structural_change_regenerates [OF s(1,2,5) s1_def, of "0.016" "Vec3 0 0 0" False]
  have "\<not> initialized s1 \<and> \<not> cloudInitialized s1 \<and> armCountUniform (galaxy s1) = 3
    \<and> (\<exists>s2. update s1 0.016 (Vec3 0 0 0) False = Some s2
          \<and> initialized s2 \<and> cloudInitialized s2
          \<and> armCountUniform (galaxy s2) = 3
          \<and> map_option spawnPositionBuffer (stars s2) =
              Some (map (\<lambda>idx. new_position
                            (computeUpdate (compute s2)
                               (star_position (computeInit (galaxy s1) idx))
                               (star_position (computeInit (galaxy s1) idx))))
                      [0 ..< 3])
          \<and> map_option cloudPositionBuffer (clouds s2) =
              Some (map (\<lambda>idx. new_position
                            (cloudUpdate (compute s2)
                               (cloud_position (cloudInit (galaxy s1) (visual s1) idx))
                               (cloud_position (cloudInit (galaxy s1) (visual s1) idx))))
                      [0 ..< 2]))"
    unfolding len using s(4) by auto
  with s(1-3) show ?thesis
    unfolding Let_def s0_def [symmetric] s_def [symmetric] s1_def [symmetric] by simp
qed

end
